theory Spec2Isabelle
  imports Complex_Main "HOL-Library.Word" "HOL-Library.Product_Lexorder" "HOL-Library.Option_ord"
    "HOL-Library.Log_Nat"
begin

section \<open>Ordered maps (\<open>std::map\<close>)\<close>

text \<open>
  The three caches of the marker pipeline are \<^verbatim>\<open>static std::map\<close> members:
  \<^verbatim>\<open>cached_images_\<close> (process_markers_symbolizer.cpp, line 238) and
  \<^verbatim>\<open>cached_attributes_\<close>, \<^verbatim>\<open>cached_ellipses_\<close>
  (render_markers_symbolizer.cpp, lines 294 and 298). A \<^verbatim>\<open>std::map\<close> keeps its
  entries in increasing key order and holds each key once, so it is modelled as an
  association list kept strictly sorted by key; \<^verbatim>\<open>begin()\<close> is the head of that
  list. Only the member functions the sources call are modelled.
\<close>

type_synonym ('k, 'v) omap = "('k \<times> 'v) list"

definition omap_keys :: "('k, 'v) omap \<Rightarrow> 'k list" where
  "omap_keys m = map fst m"

text \<open>The representation invariant: keys strictly increasing.\<close>

definition omap_inv :: "('k::linorder, 'v) omap \<Rightarrow> bool" where
  "omap_inv m = sorted_wrt (<) (omap_keys m)"

text \<open>\<^verbatim>\<open>m.size()\<close>\<close>

definition omap_size :: "('k, 'v) omap \<Rightarrow> nat" where
  "omap_size m = length m"

text \<open>\<^verbatim>\<open>m.find(k)\<close>: \<open>None\<close> stands for \<^verbatim>\<open>m.end()\<close>. The map is not changed
  by a lookup.\<close>

fun omap_find :: "'k \<Rightarrow> ('k, 'v) omap \<Rightarrow> 'v option" where
  "omap_find k [] = None"
| "omap_find k ((k', v') # m) = (if k = k' then Some v' else omap_find k m)"

text \<open>\<^verbatim>\<open>m.emplace(k, v)\<close>: inserts at the key's place in the order; a key that is
  already present keeps its old value.\<close>

fun omap_emplace :: "'k::linorder \<Rightarrow> 'v \<Rightarrow> ('k, 'v) omap \<Rightarrow> ('k, 'v) omap" where
  "omap_emplace k v [] = [(k, v)]"
| "omap_emplace k v ((k', v') # m) =
     (if k < k' then (k, v) # (k', v') # m
      else if k = k' then (k', v') # m
      else (k', v') # omap_emplace k v m)"

text \<open>\<^verbatim>\<open>m[k] = v\<close>: inserts, or overwrites the value of a key already present.\<close>

fun omap_assign :: "'k::linorder \<Rightarrow> 'v \<Rightarrow> ('k, 'v) omap \<Rightarrow> ('k, 'v) omap" where
  "omap_assign k v [] = [(k, v)]"
| "omap_assign k v ((k', v') # m) =
     (if k < k' then (k, v) # (k', v') # m
      else if k = k' then (k, v) # m
      else (k', v') # omap_assign k v m)"

text \<open>\<^verbatim>\<open>m.erase(m.begin())\<close>. On an empty map the C++ is undefined; every call in
  the sources is guarded by \<^verbatim>\<open>m.size() > bound\<close>, so the map is not empty there,
  and the model leaves an empty map as it is.\<close>

fun omap_erase_begin :: "('k, 'v) omap \<Rightarrow> ('k, 'v) omap" where
  "omap_erase_begin [] = []"
| "omap_erase_begin (kv # m) = m"

section \<open>Cache bounds and eviction\<close>

text \<open>process_markers_symbolizer.cpp, line 243, and render_markers_symbolizer.cpp,
  lines 303 and 304: each constant carries the comment "maximum number of ... to cache".\<close>

definition cache_size :: nat where
  "cache_size = 4096"

definition attributes_cache_size :: nat where
  "attributes_cache_size = 256"

definition ellipses_cache_size :: nat where
  "ellipses_cache_size = 256"

text \<open>
  The eviction step that precedes every insertion, written three times in the sources
  (process_markers_symbolizer.cpp 183-186, render_markers_symbolizer.cpp 174-177 and 224-227):
  \<^verbatim>\<open>if (cache.size() > bound) { cache.erase(cache.begin()); }\<close>
\<close>

definition evict_if_full :: "nat \<Rightarrow> ('k, 'v) omap \<Rightarrow> ('k, 'v) omap" where
  "evict_if_full bound m = (if omap_size m > bound then omap_erase_begin m else m)"

text \<open>Eviction followed by \<^verbatim>\<open>emplace\<close> (rendered-image and ellipse caches).\<close>

definition cache_emplace :: "nat \<Rightarrow> 'k::linorder \<Rightarrow> 'v \<Rightarrow> ('k, 'v) omap \<Rightarrow> ('k, 'v) omap" where
  "cache_emplace bound k v m = omap_emplace k v (evict_if_full bound m)"

text \<open>Eviction followed by \<^verbatim>\<open>cache[key] = value\<close> (attribute cache).\<close>

definition cache_assign :: "nat \<Rightarrow> 'k::linorder \<Rightarrow> 'v \<Rightarrow> ('k, 'v) omap \<Rightarrow> ('k, 'v) omap" where
  "cache_assign bound k v m = omap_assign k v (evict_if_full bound m)"

text \<open>A run of \<open>n\<close> insertions with the distinct keys \<open>0, 1, ..., n - 1\<close>, in this
  order, each done by \<open>put\<close>.\<close>

fun insert_run :: "(nat \<Rightarrow> 'm \<Rightarrow> 'm) \<Rightarrow> nat \<Rightarrow> 'm \<Rightarrow> 'm" where
  "insert_run put 0 m = m"
| "insert_run put (Suc n) m = put n (insert_run put n m)"

section \<open>Geometry, transforms and images\<close>

text \<open>
  A \<^verbatim>\<open>double\<close> is modelled by the \<open>real\<close> it stands for. The comparisons,
  \<^verbatim>\<open>std::floor\<close>, \<^verbatim>\<open>std::ceil\<close>, \<^verbatim>\<open>std::abs\<close> and the products by 2 and by
  the sampling rate 8 are exact on doubles. A sum or a difference of two doubles is the exact
  one rounded to the nearest double, ties to the even significand: \<open>round_double\<close>. Every
  \<^verbatim>\<open>+\<close> and \<^verbatim>\<open>-\<close> on doubles in \<^verbatim>\<open>render_marker\<close> and in
  \<^verbatim>\<open>box2d::width\<close>, \<^verbatim>\<open>box2d::height\<close> is modelled with this rounding; in
  geometry/interior.cpp, whose one claim turns on a comparison with zero only, the arithmetic
  is the exact one. Infinities, NaN and results beyond the largest double are outside the
  model. \<^verbatim>\<open>int\<close> is modelled by \<open>int\<close>: the casts \<^verbatim>\<open>static_cast<int>\<close> are
  applied to values already rounded to an integer, and overflow of the cast is outside the
  model.
\<close>

text \<open>Rounding to the nearest integer, ties to even.\<close>

definition rne :: "real \<Rightarrow> int" where
  "rne q =
     (let f = \<lfloor>q\<rfloor>; r = q - of_int f
      in if r < 1 / 2 then f else if 1 / 2 < r then f + 1 else if even f then f else f + 1)"

text \<open>The binary exponent of a number other than zero: \<open>2 ^ expo x \<le> \<bar>x\<bar> < 2 ^ (expo x + 1)\<close>
  (\<open>expo_bounds\<close>; \<open>expo_code\<close> computes it).\<close>

definition expo :: "real \<Rightarrow> int" where
  "expo x = \<lfloor>log 2 \<bar>x\<bar>\<rfloor>"

text \<open>The spacing of the doubles around \<open>x\<close>: 53 significant bits, and below the least
  normal exponent \<open>-1022\<close> the spacing \<open>2 ^ -1074\<close> of the subnormal numbers.\<close>

definition ulp :: "real \<Rightarrow> real" where
  "ulp x = 2 powi (max (expo x) (- 1022) - 52)"

text \<open>The rounding of IEEE 754 binary64 arithmetic in its default mode, round to nearest,
  ties to even.\<close>

definition round_double :: "real \<Rightarrow> real" where
  "round_double x = (if x = 0 then 0 else of_int (rne (x / ulp x)) * ulp x)"

text \<open>The reals that are doubles: the ones rounding leaves as they are.\<close>

definition is_double :: "real \<Rightarrow> bool" where
  "is_double x \<longleftrightarrow> round_double x = x"

text \<open>\<^verbatim>\<open>box2d<double>\<close>. The class is not under src; width, height and center are
  as the unit test test/unit/core/box2d_test.cpp uses them: the box (100, 100, 200, 200) has
  width 100, height 100 and center (150, 150).\<close>

record box2d =
  minx :: real
  miny :: real
  maxx :: real
  maxy :: real

definition width :: "box2d \<Rightarrow> real" where
  "width b = round_double (maxx b - minx b)"

definition height :: "box2d \<Rightarrow> real" where
  "height b = round_double (maxy b - miny b)"

text \<open>\<^verbatim>\<open>agg::trans_affine\<close>, with the field names of AGG.\<close>

record trans_affine =
  sx :: real
  shy :: real
  shx :: real
  sy :: real
  tx :: real
  ty :: real

text \<open>Modelled from the spec: \<^verbatim>\<open>agg::trans_affine::translate(x, y)\<close>, whose header is
  not under src. Section 4.4 of the spec describes the transform as "translated": \<open>(x, y)\<close>
  is added to the translation components, in double arithmetic; scale and shear stay.\<close>

definition translate :: "trans_affine \<Rightarrow> real \<Rightarrow> real \<Rightarrow> trans_affine" where
  "translate m x y = m\<lparr>tx := round_double (tx m + x), ty := round_double (ty m + y)\<rparr>"

text \<open>\<^verbatim>\<open>image_rgba8\<close>: dimensions and one 32-bit word per pixel, row by row.\<close>

record image_rgba8 =
  img_width :: int
  img_height :: int
  pixels :: "32 word list"

text \<open>\<^verbatim>\<open>std::make_shared<image_rgba8>(width, height, true)\<close>: a zero-initialised image.\<close>

definition make_image :: "int \<Rightarrow> int \<Rightarrow> image_rgba8" where
  "make_image w h = \<lparr>img_width = w, img_height = h, pixels = replicate (nat w * nat h) 0\<rparr>"

text \<open>\<^verbatim>\<open>std::all_of(img->begin(), img->end(), [](uint32_t val) { return val == 0; })\<close>\<close>

definition all_zero :: "image_rgba8 \<Rightarrow> bool" where
  "all_zero img = list_all (\<lambda>val. val = 0) (pixels img)"

section \<open>Path attributes and the key of the rendered-image cache\<close>

datatype gradient_e = NO_GRADIENT | LINEAR | RADIAL

text \<open>\<^verbatim>\<open>svg::path_attributes\<close>: the fields \<^verbatim>\<open>render_marker\<close> reads or writes;
  \<open>other_fields\<close> stands for all the remaining ones (colours, opacities, transform, ...),
  which take part in the comparison of two records.\<close>

record path_attributes =
  fill_flag :: bool
  stroke_flag :: bool
  stroke_width :: real
  fill_gradient_type :: gradient_e
  stroke_gradient_type :: gradient_e
  other_fields :: nat

fun gradient_rank :: "gradient_e \<Rightarrow> nat" where
  "gradient_rank NO_GRADIENT = 0"
| "gradient_rank LINEAR = 1"
| "gradient_rank RADIAL = 2"

definition attr_tuple ::
  "'a path_attributes_scheme \<Rightarrow> bool \<times> bool \<times> real \<times> nat \<times> nat \<times> nat \<times> 'a" where
  "attr_tuple a = (fill_flag a, stroke_flag a, stroke_width a,
     gradient_rank (fill_gradient_type a), gradient_rank (stroke_gradient_type a),
     other_fields a, path_attributes.more a)"

text \<open>Modelled from the spec: \<^verbatim>\<open>operator<\<close> of \<^verbatim>\<open>svg::path_attributes\<close>, which
  the \<^verbatim>\<open>std::tuple\<close> key of \<^verbatim>\<open>cached_images_\<close> needs and which is not under src.
  Section 3 of the spec: two attribute sets are cache-key-equal only by full value
  comparison. The order is the lexicographic one on the fields.\<close>

instantiation path_attributes_ext :: (linorder) linorder
begin

definition less_eq_path_attributes_ext ::
  "'a path_attributes_ext \<Rightarrow> 'a path_attributes_ext \<Rightarrow> bool" where
  "less_eq_path_attributes_ext a b = (attr_tuple a \<le> attr_tuple b)"

definition less_path_attributes_ext ::
  "'a path_attributes_ext \<Rightarrow> 'a path_attributes_ext \<Rightarrow> bool" where
  "less_path_attributes_ext a b = (attr_tuple a < attr_tuple b)"

instance
proof
  fix a b c :: "'a path_attributes_ext"
  show "(a < b) = (a \<le> b \<and> \<not> b \<le> a)"
    unfolding less_eq_path_attributes_ext_def less_path_attributes_ext_def by auto
  show "a \<le> a"
    unfolding less_eq_path_attributes_ext_def by simp
  show "a \<le> b \<Longrightarrow> b \<le> c \<Longrightarrow> a \<le> c"
    unfolding less_eq_path_attributes_ext_def by simp
  show "a \<le> b \<or> b \<le> a"
    unfolding less_eq_path_attributes_ext_def by (rule linear)
  show "a \<le> b \<Longrightarrow> b \<le> a \<Longrightarrow> a = b"
  proof -
    assume "a \<le> b" and "b \<le> a"
    then have eq: "attr_tuple a = attr_tuple b"
      unfolding less_eq_path_attributes_ext_def by simp
    have inj: "gradient_rank g = gradient_rank g' \<Longrightarrow> g = g'" for g g'
      by (cases g; cases g') simp_all
    show "a = b"
      using eq inj by (cases a, cases b) (auto simp: attr_tuple_def)
  qed
qed

end

section \<open>The AGG renderer context (process_markers_symbolizer.cpp)\<close>

text \<open>
  \<^verbatim>\<open>svg_path_ptr\<close> is a shared pointer to an \<^verbatim>\<open>svg_storage_type\<close>. The model
  keeps the address, which is what the cache key compares, beside the fields of the pointee
  that are read through the pointer: \<^verbatim>\<open>bounding_box()\<close>, \<^verbatim>\<open>attributes()\<close> and
  \<^verbatim>\<open>source()\<close> (the vertex storage, an opaque identifier here).
\<close>

record svg_path_ptr =
  addr :: nat
  bounding_box :: box2d
  attributes :: "path_attributes list"
  source :: nat

text \<open>\<^verbatim>\<open>markers_dispatch_params\<close> with its \<^verbatim>\<open>placement_params\<close>; the enumerations
  \<^verbatim>\<open>direction\<close> and \<^verbatim>\<open>placement_method\<close> by their numbers.\<close>

record markers_dispatch_params =
  marker_size :: box2d
  tr :: trans_affine
  spacing :: real
  max_error :: real
  allow_overlap :: bool
  avoid_edges :: bool
  direction :: nat
  placement_method :: nat
  ignore_placement :: bool
  snap_to_pixels :: bool
  scale_factor :: real
  opacity :: real

type_synonym clip_box = "int \<times> int \<times> int \<times> int"

type_synonym image_key = "nat \<times> int \<times> path_attributes"

type_synonym image_pair = "image_rgba8 option \<times> image_rgba8 option"

text \<open>
  The state \<^verbatim>\<open>render_marker\<close> works on: the destination buffer behind
  \<^verbatim>\<open>buf_\<close>, \<^verbatim>\<open>pixf_\<close> and \<^verbatim>\<open>renb_\<close>, the clip box of the rasterizer
  \<^verbatim>\<open>ras_\<close>, and the static map \<^verbatim>\<open>cached_images_\<close>. A null
  \<^verbatim>\<open>std::shared_ptr<image_rgba8>\<close> is \<open>None\<close>. The mutex guards concurrent callers
  and has no effect on one call.
\<close>

record agg_context =
  buf :: image_rgba8
  ras_clip_box :: clip_box
  cached_images :: "(image_key, image_pair) omap"

text \<open>
  The two rasterization primitives, \<^verbatim>\<open>render_vector_marker\<close> and
  \<^verbatim>\<open>render_raster_marker\<close> (agg_render_marker.hpp, not under src), are parameters.
  Each takes what the call passes, in the order of the call, and returns the new contents of
  the buffer it renders into:
  \<^item> \<^verbatim>\<open>render_vector_marker(svg_renderer(path, attrs), ras, renb, bbox, tr, opacity, snap)\<close>;
  \<^item> \<^verbatim>\<open>render_raster_marker(renb, ras, src, tr, opacity, scale_factor, snap)\<close>.
\<close>

record rasterizers =
  render_vector_marker ::
    "nat \<Rightarrow> path_attributes list \<Rightarrow> clip_box \<Rightarrow> image_rgba8 \<Rightarrow> box2d \<Rightarrow> trans_affine \<Rightarrow>
     real \<Rightarrow> bool \<Rightarrow> image_rgba8"
  render_raster_marker ::
    "image_rgba8 \<Rightarrow> clip_box \<Rightarrow> image_rgba8 \<Rightarrow> trans_affine \<Rightarrow> real \<Rightarrow> real \<Rightarrow> bool \<Rightarrow>
     image_rgba8"

text \<open>Line 244.\<close>

definition sampling_rate :: int where
  "sampling_rate = 8"

text \<open>Lines 89-90.\<close>

definition cacheable :: "trans_affine \<Rightarrow> bool" where
  "cacheable marker_tr \<longleftrightarrow>
     sx marker_tr = 1 \<and> sy marker_tr = 1 \<and> shx marker_tr = 0 \<and> shy marker_tr = 0"

text \<open>Lines 94-98.\<close>

definition margin :: "path_attributes \<Rightarrow> real" where
  "margin a =
     (if stroke_flag a \<or> stroke_gradient_type a \<noteq> NO_GRADIENT then \<bar>stroke_width a\<bar> else 0)"

text \<open>Lines 99-100.\<close>

definition x0 :: "svg_path_ptr \<Rightarrow> path_attributes \<Rightarrow> real" where
  "x0 src a = of_int \<lfloor>round_double (minx (bounding_box src) - margin a)\<rfloor>"

definition y0 :: "svg_path_ptr \<Rightarrow> path_attributes \<Rightarrow> real" where
  "y0 src a = of_int \<lfloor>round_double (miny (bounding_box src) - margin a)\<rfloor>"

text \<open>Lines 103-104: the fractional parts of the translation, each a rounded difference.\<close>

definition dx :: "trans_affine \<Rightarrow> real" where
  "dx marker_tr = round_double (tx marker_tr - of_int \<lfloor>tx marker_tr\<rfloor>)"

definition dy :: "trans_affine \<Rightarrow> real" where
  "dy marker_tr = round_double (ty marker_tr - of_int \<lfloor>ty marker_tr\<rfloor>)"

text \<open>Lines 106-109.\<close>

definition sample_x :: "trans_affine \<Rightarrow> int" where
  "sample_x marker_tr = \<lfloor>dx marker_tr * of_int sampling_rate\<rfloor>"

definition sample_y :: "trans_affine \<Rightarrow> int" where
  "sample_y marker_tr = \<lfloor>dy marker_tr * of_int sampling_rate\<rfloor>"

definition sample_idx :: "trans_affine \<Rightarrow> int" where
  "sample_idx marker_tr = sample_y marker_tr * sampling_rate + sample_x marker_tr"

text \<open>Line 111.\<close>

definition image_cache_key :: "svg_path_ptr \<Rightarrow> path_attributes \<Rightarrow> trans_affine \<Rightarrow> image_key" where
  "image_cache_key src a marker_tr = (addr src, sample_idx marker_tr, a)"

text \<open>Lines 128-129.\<close>

definition canvas_width :: "svg_path_ptr \<Rightarrow> path_attributes \<Rightarrow> int" where
  "canvas_width src a = \<lceil>round_double (width (bounding_box src) + 2 * margin a)\<rceil> + 2"

definition canvas_height :: "svg_path_ptr \<Rightarrow> path_attributes \<Rightarrow> int" where
  "canvas_height src a = \<lceil>round_double (height (bounding_box src) + 2 * margin a)\<rceil> + 2"

text \<open>Lines 135-137: the local transform of the scratch canvas.\<close>

definition local_transform :: "svg_path_ptr \<Rightarrow> path_attributes \<Rightarrow> trans_affine \<Rightarrow> trans_affine" where
  "local_transform src a marker_tr =
     marker_tr\<lparr>tx := round_double (dx marker_tr - x0 src a),
               ty := round_double (dy marker_tr - y0 src a)\<rparr>"

text \<open>
  Lines 142-158 and 164-180 without the guard: a zeroed canvas is allocated, the marker is
  rendered into it with the given one-record attribute copy under the clip box of line 132,
  at opacity 1; an image whose pixels are all zero is dropped
  (\<^verbatim>\<open>img.reset()\<close>).
\<close>

definition render_patch ::
  "rasterizers \<Rightarrow> svg_path_ptr \<Rightarrow> nat \<Rightarrow> path_attributes \<Rightarrow> path_attributes \<Rightarrow>
   markers_dispatch_params \<Rightarrow> trans_affine \<Rightarrow> image_rgba8 option" where
  "render_patch R src path a attrs_copy params marker_tr =
     (let w = canvas_width src a;
          h = canvas_height src a;
          img = render_vector_marker R path [attrs_copy] (0, 0, w, h) (make_image w h)
                  (bounding_box src) (local_transform src a marker_tr) 1 (snap_to_pixels params)
      in if all_zero img then None else Some img)"

text \<open>Lines 139-159: the fill image, rendered with the stroke switched off.\<close>

definition create_fill_image ::
  "rasterizers \<Rightarrow> svg_path_ptr \<Rightarrow> nat \<Rightarrow> path_attributes \<Rightarrow> markers_dispatch_params \<Rightarrow>
   trans_affine \<Rightarrow> image_rgba8 option" where
  "create_fill_image R src path a params marker_tr =
     (if fill_flag a \<or> fill_gradient_type a \<noteq> NO_GRADIENT
      then render_patch R src path a
             (a\<lparr>stroke_flag := False, stroke_gradient_type := NO_GRADIENT\<rparr>) params marker_tr
      else None)"

text \<open>Lines 161-181: the stroke image, rendered with the fill switched off.\<close>

definition create_stroke_image ::
  "rasterizers \<Rightarrow> svg_path_ptr \<Rightarrow> nat \<Rightarrow> path_attributes \<Rightarrow> markers_dispatch_params \<Rightarrow>
   trans_affine \<Rightarrow> image_rgba8 option" where
  "create_stroke_image R src path a params marker_tr =
     (if stroke_flag a \<or> stroke_gradient_type a \<noteq> NO_GRADIENT
      then render_patch R src path a
             (a\<lparr>fill_flag := False, fill_gradient_type := NO_GRADIENT\<rparr>) params marker_tr
      else None)"

text \<open>Lines 119-191: the lookup and, on a miss, the rendering of both images, the
  eviction, the insertion and the reset of the clip box to the size of the destination.
  The result is the pair of images to blit and the new state.\<close>

definition lookup_or_render ::
  "rasterizers \<Rightarrow> svg_path_ptr \<Rightarrow> nat \<Rightarrow> path_attributes \<Rightarrow> markers_dispatch_params \<Rightarrow>
   trans_affine \<Rightarrow> agg_context \<Rightarrow> image_pair \<times> agg_context" where
  "lookup_or_render R src path a params marker_tr st =
     (let key = image_cache_key src a marker_tr
      in case omap_find key (cached_images st) of
           Some imgs \<Rightarrow> (imgs, st)
         | None \<Rightarrow>
             (let fill_img = create_fill_image R src path a params marker_tr;
                  stroke_img = create_stroke_image R src path a params marker_tr
              in ((fill_img, stroke_img),
                  st\<lparr>cached_images :=
                        cache_emplace cache_size key (fill_img, stroke_img) (cached_images st),
                      ras_clip_box := (0, 0, img_width (buf st), img_height (buf st))\<rparr>)))"

text \<open>Lines 194-195: the transform of the blit.\<close>

definition blit_transform :: "svg_path_ptr \<Rightarrow> path_attributes \<Rightarrow> trans_affine \<Rightarrow> trans_affine" where
  "blit_transform src a marker_tr =
     translate marker_tr (round_double (x0 src a - dx marker_tr))
       (round_double (y0 src a - dy marker_tr))"

text \<open>Lines 198-201 and 202-205: \<^verbatim>\<open>if (img) { render_raster_marker(renb_, ras_, *img, ...); }\<close>\<close>

definition blit ::
  "rasterizers \<Rightarrow> image_rgba8 option \<Rightarrow> trans_affine \<Rightarrow> markers_dispatch_params \<Rightarrow>
   agg_context \<Rightarrow> agg_context" where
  "blit R img marker_tr_copy params st =
     (case img of
        None \<Rightarrow> st
      | Some i \<Rightarrow>
          st\<lparr>buf := render_raster_marker R (buf st) (ras_clip_box st) i marker_tr_copy
                      (opacity params) (scale_factor params) (snap_to_pixels params)\<rparr>)"

text \<open>Lines 76-213: \<^verbatim>\<open>render_marker\<close> for a vector marker.\<close>

definition render_marker ::
  "rasterizers \<Rightarrow> svg_path_ptr \<Rightarrow> nat \<Rightarrow> path_attributes list \<Rightarrow> markers_dispatch_params \<Rightarrow>
   trans_affine \<Rightarrow> agg_context \<Rightarrow> agg_context" where
  "render_marker R src path attrs params marker_tr st =
     (if length attrs = 1 \<and> cacheable marker_tr
      then
        (let a = attrs ! 0;
             ((fill_img, stroke_img), st1) = lookup_or_render R src path a params marker_tr st;
             marker_tr_copy = blit_transform src a marker_tr
         in blit R stroke_img marker_tr_copy params (blit R fill_img marker_tr_copy params st1))
      else
        st\<lparr>buf := render_vector_marker R path attrs (ras_clip_box st) (buf st)
                    (bounding_box src) marker_tr (opacity params) (snap_to_pixels params)\<rparr>)"

text \<open>Lines 216-225: \<^verbatim>\<open>render_marker\<close> for a raster marker.\<close>

definition render_marker_image ::
  "rasterizers \<Rightarrow> image_rgba8 \<Rightarrow> markers_dispatch_params \<Rightarrow> trans_affine \<Rightarrow>
   agg_context \<Rightarrow> agg_context" where
  "render_marker_image R src params marker_tr st =
     st\<lparr>buf := render_raster_marker R (buf st) (ras_clip_box st) src marker_tr
                 (opacity params) (scale_factor params) (snap_to_pixels params)\<rparr>"

section \<open>The symbolizer visitor (render_markers_symbolizer.cpp)\<close>

text \<open>The property keys the sources name (\<^verbatim>\<open>keys::file\<close>, ...); \<open>keys_other\<close> stands
  for the rest of the enumeration.\<close>

datatype keys =
    keys_file | keys_width | keys_height | keys_stroke_width
  | keys_image_transform | keys_geometry_transform
  | keys_clip | keys_offset | keys_simplify_tolerance | keys_smooth
  | keys_spacing | keys_max_error | keys_allow_overlap | keys_avoid_edges | keys_direction
  | keys_markers_placement_type | keys_ignore_placement | keys_opacity
  | keys_other nat

text \<open>The variant \<^verbatim>\<open>symbolizer_base::value_type\<close>: literal values, expressions (by an
  identifier) and the other alternatives.\<close>

datatype prop_value =
    value_bool bool
  | value_integer int
  | value_double real
  | value_string string
  | expression_ptr nat
  | path_expression_ptr nat
  | transform_type nat
  | value_other nat

text \<open>Modelled from the spec: \<^verbatim>\<open>is_expression\<close> (symbolizer_base.hpp, not under src).
  Section 4.3 of the spec: a style property is dynamic when it is expression-valued.\<close>

fun is_expression :: "prop_value \<Rightarrow> bool" where
  "is_expression (expression_ptr e) = True"
| "is_expression v = False"

text \<open>\<^verbatim>\<open>symbolizer_base::cont_type\<close> is a \<^verbatim>\<open>std::map<keys, value_type>\<close>; its
  equality compares the entries in key order. \<open>sym_addr\<close> is the address
  \<^verbatim>\<open>&sym_\<close> of the symbolizer.\<close>

type_synonym cont_type = "(keys \<times> prop_value) list"

record markers_symbolizer =
  sym_addr :: nat
  properties :: cont_type

text \<open>A feature together with the runtime variables \<^verbatim>\<open>common_.vars_\<close>, the
  projection and the clip box of the call: read only, and used by the collaborators only.\<close>

type_synonym feature_impl = nat

text \<open>The state of a collaborator whose code is not under src.\<close>

type_synonym opaque = nat

datatype marker =
    marker_null
  | marker_svg svg_path_ptr
  | marker_rgba8 image_rgba8

datatype geometry_types =
    Unknown | Point | LineString | Polygon | MultiPoint | MultiLineString | MultiPolygon
  | GeometryCollection

datatype converter_tag =
    clip_poly_tag | clip_line_tag | transform_tag | offset_transform_tag
  | affine_transform_tag | simplify_tag | smooth_tag

text \<open>
  The collaborators, as parameters. None of them is under src:
  \<^item> \<open>is_uri\<close>, \<open>marker_find\<close>: \<^verbatim>\<open>marker_cache::instance()\<close>, the marker registry,
    whose state \<open>marker_find\<close> may change;
  \<^item> \<open>push_explicit_style\<close>: \<open>Some custom_attr\<close> where the C++ returns true;
  \<^item> \<open>extract_string\<close>, \<open>extract_double\<close>: \<^verbatim>\<open>extract_value<T>\<close>, the value of a
    property that is present, evaluated on the feature;
  \<^item> \<open>get_bool\<close>, \<open>get_double\<close>, \<open>get_enum\<close>: \<^verbatim>\<open>get<T, key>(sym, feature, vars)\<close>,
    with the default of the property's metadata;
  \<^item> \<open>setup_transform_scaling\<close>, \<open>evaluate_transform\<close>, \<open>build_ellipse\<close> (which fills the
    storage allocated at the given address), \<open>geometry_type\<close>;
  \<^item> \<open>apply_markers_multi\<close>: the placement finder and the collision detector. It is given
    the converter's stages and the dispatch parameters and answers with the transforms of
    the placements it grants, in order, and the new state of the detector. The dispatch
    objects (marker_helpers.hpp) call \<^verbatim>\<open>render_marker\<close> of the renderer context once
    for each granted placement.
\<close>

record collaborators =
  is_uri :: "string \<Rightarrow> bool"
  marker_find :: "string \<Rightarrow> bool \<Rightarrow> opaque \<Rightarrow> marker \<times> opaque"
  push_explicit_style ::
    "path_attributes list \<Rightarrow> markers_symbolizer \<Rightarrow> feature_impl \<Rightarrow> path_attributes list option"
  extract_string :: "feature_impl \<Rightarrow> prop_value \<Rightarrow> string"
  extract_double :: "feature_impl \<Rightarrow> prop_value \<Rightarrow> real"
  get_bool :: "markers_symbolizer \<Rightarrow> keys \<Rightarrow> feature_impl \<Rightarrow> bool"
  get_double :: "markers_symbolizer \<Rightarrow> keys \<Rightarrow> feature_impl \<Rightarrow> real"
  get_enum :: "markers_symbolizer \<Rightarrow> keys \<Rightarrow> feature_impl \<Rightarrow> nat"
  setup_transform_scaling ::
    "trans_affine \<Rightarrow> real \<Rightarrow> real \<Rightarrow> feature_impl \<Rightarrow> markers_symbolizer \<Rightarrow> trans_affine"
  evaluate_transform :: "trans_affine \<Rightarrow> feature_impl \<Rightarrow> prop_value \<Rightarrow> real \<Rightarrow> trans_affine"
  build_ellipse :: "markers_symbolizer \<Rightarrow> feature_impl \<Rightarrow> nat \<Rightarrow> svg_path_ptr"
  geometry_type :: "feature_impl \<Rightarrow> geometry_types"
  recenter :: "box2d \<Rightarrow> trans_affine \<Rightarrow> trans_affine"
  apply_markers_multi ::
    "feature_impl \<Rightarrow> converter_tag list \<Rightarrow> trans_affine \<Rightarrow> markers_symbolizer \<Rightarrow>
     markers_dispatch_params \<Rightarrow> opaque \<Rightarrow> trans_affine list \<times> opaque"

text \<open>\<^verbatim>\<open>renderer_common\<close>: the scale factor \<^verbatim>\<open>scale_factor_\<close>; its detector is part of the state below.\<close>

record renderer_common =
  common_scale_factor :: real

type_synonym attribute_entry = "path_attributes list \<times> cont_type"

type_synonym ellipse_key = "real option \<times> real option \<times> real option"

text \<open>
  The whole state a call of \<^verbatim>\<open>render_markers_symbolizer\<close> can touch: the two static
  maps of the visitor, the marker registry, the collision detector, the next free address for
  \<^verbatim>\<open>std::make_shared\<close>, and the renderer context with the destination buffer and the
  rendered-image cache. In the key of \<^verbatim>\<open>cached_ellipses_\<close>, \<open>None\<close> is the sentinel
  \<^verbatim>\<open>-std::numeric_limits<double>::infinity()\<close>, below every number.
  The metrics calls of this fork (\<^verbatim>\<open>measure_time\<close>, \<^verbatim>\<open>measure_add\<close>) are left out.
\<close>

record render_state =
  cached_attributes :: "(nat, attribute_entry) omap"
  cached_ellipses :: "(ellipse_key, svg_path_ptr) omap"
  registry :: opaque
  detector :: opaque
  next_addr :: nat
  renderer_context :: agg_context

text \<open>Modelled from the spec: \<^verbatim>\<open>get<T>(sym, key, feature, vars, default_value)\<close>
  (symbolizer.hpp, not under src): the default when the symbolizer has no such key, the
  evaluated property otherwise. The call at line 365 passes \<^verbatim>\<open>"shape://ellipse"\<close>, the
  "special sentinel identifier" of section 4.2 of the spec.\<close>

definition get_or_default ::
  "(feature_impl \<Rightarrow> prop_value \<Rightarrow> 'a) \<Rightarrow> markers_symbolizer \<Rightarrow> keys \<Rightarrow> feature_impl \<Rightarrow> 'a \<Rightarrow> 'a" where
  "get_or_default extract symbolizer key feature default_value =
     (case map_of (properties symbolizer) key of
        None \<Rightarrow> default_value
      | Some v \<Rightarrow> extract feature v)"

text \<open>The same with the default \<^verbatim>\<open>-infinity\<close> (lines 196-198).\<close>

definition get_or_neg_infinity ::
  "collaborators \<Rightarrow> markers_symbolizer \<Rightarrow> keys \<Rightarrow> feature_impl \<Rightarrow> real option" where
  "get_or_neg_infinity C symbolizer key feature =
     (case map_of (properties symbolizer) key of
        None \<Rightarrow> None
      | Some v \<Rightarrow> Some (extract_double C feature v))"

text \<open>Modelled from the spec: \<^verbatim>\<open>has_key\<close> and \<^verbatim>\<open>get_optional\<close> (symbolizer.hpp, not
  under src), the presence of a key and the property stored under it.\<close>

definition has_key :: "markers_symbolizer \<Rightarrow> keys \<Rightarrow> bool" where
  "has_key symbolizer key \<longleftrightarrow> map_of (properties symbolizer) key \<noteq> None"

definition get_optional :: "markers_symbolizer \<Rightarrow> keys \<Rightarrow> prop_value option" where
  "get_optional symbolizer key = map_of (properties symbolizer) key"

text \<open>Modelled from the spec: \<^verbatim>\<open>agg::trans_affine_scaling(s)\<close>, not under src: the
  uniform scaling by \<open>s\<close> (section 4.2: "pre-scaled by the render scale factor").\<close>

definition trans_affine_scaling :: "real \<Rightarrow> trans_affine" where
  "trans_affine_scaling s = \<lparr>sx = s, shy = 0, shx = 0, sy = s, tx = 0, ty = 0\<rparr>"

text \<open>Lines 56-64.\<close>

definition get_marker_attributes ::
  "collaborators \<Rightarrow> svg_path_ptr \<Rightarrow> markers_symbolizer \<Rightarrow> feature_impl \<Rightarrow> path_attributes list" where
  "get_marker_attributes C stock_marker symbolizer feature =
     (case push_explicit_style C (attributes stock_marker) symbolizer feature of
        Some custom_attr \<Rightarrow> custom_attr
      | None \<Rightarrow> attributes stock_marker)"

text \<open>Lines 147-152: the lookup in the attribute cache; \<open>None\<close> is the null
  \<^verbatim>\<open>r_attributes\<close>.\<close>

definition find_cached_attributes ::
  "markers_symbolizer \<Rightarrow> (nat, attribute_entry) omap \<Rightarrow> path_attributes list option" where
  "find_cached_attributes symbolizer cache =
     (case omap_find (sym_addr symbolizer) cache of
        Some (attrs, props) \<Rightarrow> if props = properties symbolizer then Some attrs else None
      | None \<Rightarrow> None)"

text \<open>Lines 165-168.\<close>

definition attributes_cacheable :: "markers_symbolizer \<Rightarrow> bool" where
  "attributes_cacheable symbolizer = list_all (\<lambda>key_prop. \<not> is_expression (snd key_prop)) (properties symbolizer)"

text \<open>Lines 134-180: the attributes of the marker, from the cache or resolved afresh.\<close>

definition resolve_attributes ::
  "collaborators \<Rightarrow> svg_path_ptr \<Rightarrow> markers_symbolizer \<Rightarrow> feature_impl \<Rightarrow> render_state \<Rightarrow>
   path_attributes list \<times> render_state" where
  "resolve_attributes C stock_marker symbolizer feature st =
     (case find_cached_attributes symbolizer (cached_attributes st) of
        Some r_attributes \<Rightarrow> (r_attributes, st)
      | None \<Rightarrow>
          (let r_attributes = get_marker_attributes C stock_marker symbolizer feature
           in if attributes_cacheable symbolizer
              then (r_attributes,
                    st\<lparr>cached_attributes :=
                          cache_assign attributes_cache_size (sym_addr symbolizer)
                            (r_attributes, properties symbolizer) (cached_attributes st)\<rparr>)
              else (r_attributes, st)))"

text \<open>Lines 193-200.\<close>

definition marker_key :: "collaborators \<Rightarrow> markers_symbolizer \<Rightarrow> feature_impl \<Rightarrow> ellipse_key" where
  "marker_key C symbolizer feature =
     (get_or_neg_infinity C symbolizer keys_width feature,
      get_or_neg_infinity C symbolizer keys_height feature,
      get_or_neg_infinity C symbolizer keys_stroke_width feature)"

text \<open>Lines 202-230: the ellipse, from the cache or built, then cached.\<close>

definition resolve_ellipse ::
  "collaborators \<Rightarrow> markers_symbolizer \<Rightarrow> feature_impl \<Rightarrow> render_state \<Rightarrow>
   svg_path_ptr \<times> render_state" where
  "resolve_ellipse C symbolizer feature st =
     (let key = marker_key C symbolizer feature
      in case omap_find key (cached_ellipses st) of
           Some marker_ptr \<Rightarrow> (marker_ptr, st)
         | None \<Rightarrow>
             (let marker_ptr = build_ellipse C symbolizer feature (next_addr st)
              in (marker_ptr,
                  st\<lparr>next_addr := Suc (next_addr st),
                      cached_ellipses :=
                        cache_emplace ellipses_cache_size key marker_ptr (cached_ellipses st)\<rparr>)))"

text \<open>Lines 86-114: the stages of the vertex converter, in the order they are set.\<close>

definition converter_tags :: "collaborators \<Rightarrow> markers_symbolizer \<Rightarrow> feature_impl \<Rightarrow> converter_tag list" where
  "converter_tags C symbolizer feature =
     (if get_bool C symbolizer keys_clip feature
      then (case geometry_type C feature of
              Polygon \<Rightarrow> [clip_poly_tag]
            | MultiPolygon \<Rightarrow> [clip_poly_tag]
            | LineString \<Rightarrow> [clip_line_tag]
            | MultiLineString \<Rightarrow> [clip_line_tag]
            | _ \<Rightarrow> [])
      else [])
     @ [transform_tag]
     @ (if \<bar>get_double C symbolizer keys_offset feature\<bar> > 0 then [offset_transform_tag] else [])
     @ [affine_transform_tag]
     @ (if get_double C symbolizer keys_simplify_tolerance feature > 0 then [simplify_tag] else [])
     @ (if get_double C symbolizer keys_smooth feature > 0 then [smooth_tag] else [])"

text \<open>Lines 326-348: the constructor of \<^verbatim>\<open>markers_dispatch_params\<close>.\<close>

definition make_dispatch_params ::
  "collaborators \<Rightarrow> box2d \<Rightarrow> trans_affine \<Rightarrow> markers_symbolizer \<Rightarrow> feature_impl \<Rightarrow> real \<Rightarrow> bool \<Rightarrow>
   markers_dispatch_params" where
  "make_dispatch_params C sz t symbolizer feature scale snap =
     \<lparr>marker_size = sz, tr = t,
      spacing = get_double C symbolizer keys_spacing feature * scale,
      max_error = get_double C symbolizer keys_max_error feature,
      allow_overlap = get_bool C symbolizer keys_allow_overlap feature,
      avoid_edges = get_bool C symbolizer keys_avoid_edges feature,
      direction = get_enum C symbolizer keys_direction feature,
      placement_method = get_enum C symbolizer keys_markers_placement_type feature,
      ignore_placement = get_bool C symbolizer keys_ignore_placement feature,
      snap_to_pixels = snap,
      scale_factor = scale,
      opacity = get_double C symbolizer keys_opacity feature\<rparr>"

text \<open>Lines 66-117 for both kinds of marker: the geometry transform, the converter, and
  \<^verbatim>\<open>apply_markers_multi\<close>, which hands every granted placement to the given
  \<^verbatim>\<open>render_marker\<close> of the renderer context.\<close>

definition visitor_render_marker ::
  "collaborators \<Rightarrow> markers_symbolizer \<Rightarrow> feature_impl \<Rightarrow> renderer_common \<Rightarrow>
   markers_dispatch_params \<Rightarrow> (trans_affine \<Rightarrow> agg_context \<Rightarrow> agg_context) \<Rightarrow>
   render_state \<Rightarrow> render_state" where
  "visitor_render_marker C symbolizer feature common params render st =
     (let geom_tr = (case get_optional symbolizer keys_geometry_transform of
                       Some geometry_transform \<Rightarrow>
                         evaluate_transform C \<lparr>sx = 1, shy = 0, shx = 0, sy = 1, tx = 0, ty = 0\<rparr>
                           feature geometry_transform (common_scale_factor common)
                     | None \<Rightarrow> \<lparr>sx = 1, shy = 0, shx = 0, sy = 1, tx = 0, ty = 0\<rparr>);
          (placements, detector') =
            apply_markers_multi C feature (converter_tags C symbolizer feature) geom_tr symbolizer params
              (detector st)
      in st\<lparr>detector := detector', renderer_context := fold render placements (renderer_context st)\<rparr>)"

text \<open>Lines 121-253: \<^verbatim>\<open>operator()(marker_svg const&)\<close>.\<close>

definition visit_marker_svg ::
  "collaborators \<Rightarrow> rasterizers \<Rightarrow> string \<Rightarrow> markers_symbolizer \<Rightarrow> feature_impl \<Rightarrow>
   renderer_common \<Rightarrow> svg_path_ptr \<Rightarrow> render_state \<Rightarrow> render_state" where
  "visit_marker_svg C R filename symbolizer feature common stock_vector_marker st =
     (let snap = \<not> is_uri C filename;
          image_tr = trans_affine_scaling (common_scale_factor common);
          (r_attributes, st1) = resolve_attributes C stock_vector_marker symbolizer feature st;
          (marker_ptr, image_tr1, st2) =
            (if filename \<noteq> ''shape://ellipse''
                \<or> \<not> (has_key symbolizer keys_width \<or> has_key symbolizer keys_height)
             then (stock_vector_marker,
                   setup_transform_scaling C image_tr
                     (width (bounding_box stock_vector_marker))
                     (height (bounding_box stock_vector_marker)) feature symbolizer,
                   st1)
             else (let (m, s) = resolve_ellipse C symbolizer feature st1 in (m, image_tr, s)));
          image_tr2 = (case get_optional symbolizer keys_image_transform of
                         Some image_transform \<Rightarrow>
                           evaluate_transform C image_tr1 feature image_transform
                             (common_scale_factor common)
                       | None \<Rightarrow> image_tr1);
          params = make_dispatch_params C (bounding_box marker_ptr) image_tr2 symbolizer feature
                     (common_scale_factor common) snap
      in visitor_render_marker C symbolizer feature common params
           (render_marker R marker_ptr (source marker_ptr) r_attributes params) st2)"

text \<open>Lines 255-279: \<^verbatim>\<open>operator()(marker_rgba8 const&)\<close>. The bounding box of a raster
  marker spans the image; \<open>recenter\<close> is the product
  \<^verbatim>\<open>trans_affine_translation(-center.x, -center.y) * image_tr\<close>. The raster dispatch
  (marker_helpers.hpp) builds its parameters without a snap flag, which then is false.\<close>

definition visit_marker_rgba8 ::
  "collaborators \<Rightarrow> rasterizers \<Rightarrow> markers_symbolizer \<Rightarrow> feature_impl \<Rightarrow>
   renderer_common \<Rightarrow> image_rgba8 \<Rightarrow> render_state \<Rightarrow> render_state" where
  "visit_marker_rgba8 C R symbolizer feature common mark st =
     (let image_tr = trans_affine_scaling (common_scale_factor common);
          image_tr1 = setup_transform_scaling C image_tr
                        (of_int (img_width mark)) (of_int (img_height mark)) feature symbolizer;
          image_tr2 = (case get_optional symbolizer keys_image_transform of
                         Some image_transform \<Rightarrow>
                           evaluate_transform C image_tr1 feature image_transform
                             (common_scale_factor common)
                       | None \<Rightarrow> image_tr1);
          bbox = \<lparr>minx = 0, miny = 0, maxx = of_int (img_width mark),
                  maxy = of_int (img_height mark)\<rparr>;
          marker_trans = recenter C bbox image_tr2;
          params = make_dispatch_params C bbox marker_trans symbolizer feature
                     (common_scale_factor common) False
      in visitor_render_marker C symbolizer feature common params
           (render_marker_image R mark params) st)"

text \<open>Lines 119-121 and 255: \<^verbatim>\<open>util::apply_visitor(visitor, *mark)\<close>.\<close>

fun apply_visitor ::
  "collaborators \<Rightarrow> rasterizers \<Rightarrow> string \<Rightarrow> markers_symbolizer \<Rightarrow> feature_impl \<Rightarrow>
   renderer_common \<Rightarrow> marker \<Rightarrow> render_state \<Rightarrow> render_state" where
  "apply_visitor C R filename symbolizer feature common marker_null st = st"
| "apply_visitor C R filename symbolizer feature common (marker_svg mark) st =
     visit_marker_svg C R filename symbolizer feature common mark st"
| "apply_visitor C R filename symbolizer feature common (marker_rgba8 mark) st =
     visit_marker_rgba8 C R symbolizer feature common mark st"

text \<open>Lines 350-373: the entry point.\<close>

definition render_markers_symbolizer ::
  "collaborators \<Rightarrow> rasterizers \<Rightarrow> markers_symbolizer \<Rightarrow> feature_impl \<Rightarrow> renderer_common \<Rightarrow>
   render_state \<Rightarrow> render_state" where
  "render_markers_symbolizer C R symbolizer feature common st =
     (let filename = get_or_default (extract_string C) symbolizer keys_file feature ''shape://ellipse''
      in if filename \<noteq> []
         then (let (mark, registry') = marker_find C filename True (registry st)
               in apply_visitor C R filename symbolizer feature common mark
                    (st\<lparr>registry := registry'\<rparr>))
         else st)"

section \<open>The interior point of a polygon (geometry/interior.cpp)\<close>

text \<open>
  \<^verbatim>\<open>point<double>\<close>, \<^verbatim>\<open>linear_ring<double>\<close> and \<^verbatim>\<open>polygon<double>\<close>.
  The template parameter \<^verbatim>\<open>T\<close> is \<^verbatim>\<open>double\<close> in the one instantiation of the
  file (line 231).
\<close>

datatype point = point (point_x: real) (point_y: real)

type_synonym linear_ring = "point list"

record polygon =
  exterior_ring :: linear_ring
  interior_rings :: "linear_ring list"

text \<open>
  What a run of the model can end in beside a point. A C++ division of doubles by zero does
  not trap, it yields an infinity or a NaN, which \<open>real\<close> does not have: the model makes
  every division of the file a checked one, so that a run that divides by zero is seen as
  such. The loops of the file carry fuel; \<open>min_dist_sq\<close> starts at infinity, and a polygon
  without any segment, for which it would stay there, ends the run of the model.
\<close>

datatype error = division_by_zero | out_of_fuel | infinite_distance

definition checked_div :: "real \<Rightarrow> real \<Rightarrow> error + real" where
  "checked_div a b = (if b = 0 then Inl division_by_zero else Inr (a / b))"

text \<open>\<^verbatim>\<open>box2d::center()\<close>, as in test/unit/core/box2d_test.cpp.\<close>

definition center :: "box2d \<Rightarrow> point" where
  "center b = point ((minx b + maxx b) / 2) ((miny b + maxy b) / 2)"

text \<open>Lines 43-71.\<close>

definition segment_dist_sq :: "point \<Rightarrow> point \<Rightarrow> point \<Rightarrow> error + real" where
  "segment_dist_sq p a b =
     (let x = point_x a;
          y = point_y a;
          dx = point_x b - x;
          dy = point_y b - y
      in case (if dx \<noteq> 0 \<or> dy \<noteq> 0
               then (case checked_div ((point_x p - x) * dx + (point_y p - y) * dy)
                            (dx * dx + dy * dy) of
                       Inl e \<Rightarrow> Inl e
                     | Inr t \<Rightarrow>
                         Inr (if t > 1 then (point_x b, point_y b)
                              else if t > 0 then (x + dx * t, y + dy * t)
                              else (x, y)))
               else Inr (x, y)) of
           Inl e \<Rightarrow> Inl e
         | Inr (x', y') \<Rightarrow>
             Inr ((point_x p - x') * (point_x p - x') + (point_y p - y') * (point_y p - y')))"

text \<open>Lines 82-83: the test that flips \<^verbatim>\<open>inside\<close>; the division is evaluated only
  when the left operand of \<^verbatim>\<open>&&\<close> holds.\<close>

definition crosses :: "point \<Rightarrow> point \<Rightarrow> point \<Rightarrow> error + bool" where
  "crosses p a b =
     (if (point_y a > point_y p) \<noteq> (point_y b > point_y p)
      then (case checked_div ((point_x b - point_x a) * (point_y p - point_y a))
                   (point_y b - point_y a) of
              Inl e \<Rightarrow> Inl e
            | Inr q \<Rightarrow> Inr (point_x p < q + point_x a))
      else Inr False)"

text \<open>Line 77: the pairs \<^verbatim>\<open>(ring[i], ring[j])\<close> the loop visits, \<open>j\<close> being the index
  before \<open>i\<close>, and the last index at the start.\<close>

definition ring_segments :: "linear_ring \<Rightarrow> (point \<times> point) list" where
  "ring_segments ring = (if ring = [] then [] else zip ring (last ring # butlast ring))"

text \<open>Lines 77-86: the body of the loop, on the pair \<^verbatim>\<open>(inside, min_dist_sq)\<close>;
  \<open>None\<close> is the infinity \<open>min_dist_sq\<close> starts with.\<close>

fun point_to_ring_dist_loop ::
  "point \<Rightarrow> (point \<times> point) list \<Rightarrow> bool \<times> real option \<Rightarrow> error + (bool \<times> real option)" where
  "point_to_ring_dist_loop p [] acc = Inr acc"
| "point_to_ring_dist_loop p ((a, b) # segs) (inside, min_dist_sq) =
     (case crosses p a b of
        Inl e \<Rightarrow> Inl e
      | Inr flip \<Rightarrow>
          (case segment_dist_sq p a b of
             Inl e \<Rightarrow> Inl e
           | Inr dst \<Rightarrow>
               point_to_ring_dist_loop p segs
                 (if flip then \<not> inside else inside,
                  Some (case min_dist_sq of None \<Rightarrow> dst | Some m \<Rightarrow> min m dst))))"

text \<open>Lines 73-87.\<close>

definition point_to_ring_dist ::
  "point \<Rightarrow> linear_ring \<Rightarrow> bool \<times> real option \<Rightarrow> error + (bool \<times> real option)" where
  "point_to_ring_dist p ring acc = point_to_ring_dist_loop p (ring_segments ring) acc"

text \<open>Lines 98-101: the loop over the interior rings.\<close>

fun point_to_rings_dist ::
  "point \<Rightarrow> linear_ring list \<Rightarrow> bool \<times> real option \<Rightarrow> error + (bool \<times> real option)" where
  "point_to_rings_dist p [] acc = Inr acc"
| "point_to_rings_dist p (ring # rings) acc =
     (case point_to_ring_dist p ring acc of
        Inl e \<Rightarrow> Inl e
      | Inr acc' \<Rightarrow> point_to_rings_dist p rings acc')"

text \<open>Lines 90-104.\<close>

definition point_to_polygon_dist :: "point \<Rightarrow> polygon \<Rightarrow> error + real" where
  "point_to_polygon_dist p poly =
     (case point_to_ring_dist p (exterior_ring poly) (False, None) of
        Inl e \<Rightarrow> Inl e
      | Inr acc \<Rightarrow>
          (case point_to_rings_dist p (interior_rings poly) acc of
             Inl e \<Rightarrow> Inl e
           | Inr (inside, None) \<Rightarrow> Inl infinite_distance
           | Inr (inside, Some min_dist_sq) \<Rightarrow>
               Inr ((if inside then 1 else - 1) * sqrt min_dist_sq)))"

text \<open>Lines 106-127.\<close>

record fitness_functor =
  centroid :: point
  max_size :: real

definition make_fitness_functor :: "point \<Rightarrow> point \<Rightarrow> fitness_functor" where
  "make_fitness_functor cen polygon_size =
     \<lparr>centroid = cen, max_size = max (point_x polygon_size) (point_y polygon_size)\<rparr>"

definition fitness :: "fitness_functor \<Rightarrow> point \<Rightarrow> real \<Rightarrow> error + real" where
  "fitness ff cell_center distance_polygon =
     (if distance_polygon \<le> 0 then Inr distance_polygon
      else (let ddx = point_x cell_center - point_x (centroid ff);
                ddy = point_y cell_center - point_y (centroid ff);
                distance_centroid = sqrt (ddx * ddx + ddy * ddy)
            in case checked_div distance_centroid (max_size ff) of
                 Inl e \<Rightarrow> Inl e
               | Inr q \<Rightarrow> Inr (distance_polygon * (1 - q))))"

text \<open>Lines 129-148.\<close>

record cell =
  cell_c :: point
  cell_h :: real
  cell_d :: real
  cell_fitness :: real
  cell_max_fitness :: real

definition make_cell :: "point \<Rightarrow> real \<Rightarrow> polygon \<Rightarrow> fitness_functor \<Rightarrow> error + cell" where
  "make_cell cc hh poly ff =
     (case point_to_polygon_dist cc poly of
        Inl e \<Rightarrow> Inl e
      | Inr dst \<Rightarrow>
          (case fitness ff cc dst of
             Inl e \<Rightarrow> Inl e
           | Inr fit \<Rightarrow>
               (case fitness ff cc (dst + hh * sqrt 2) of
                  Inl e \<Rightarrow> Inl e
                | Inr max_fit \<Rightarrow>
                    Inr \<lparr>cell_c = cc, cell_h = hh, cell_d = dst, cell_fitness = fit,
                         cell_max_fitness = max_fit\<rparr>)))"

text \<open>
  The \<^verbatim>\<open>std::priority_queue\<close> of lines 161-166 as a list: \<^verbatim>\<open>push\<close> puts a cell
  in front, \<^verbatim>\<open>top\<close> is a cell of greatest \<^verbatim>\<open>max_fitness\<close> and \<^verbatim>\<open>pop\<close>
  removes it. Among cells of equal \<^verbatim>\<open>max_fitness\<close> the C++ heap takes one by its own
  layout; the model takes the first.
\<close>

fun queue_top :: "cell \<Rightarrow> cell list \<Rightarrow> cell" where
  "queue_top best [] = best"
| "queue_top best (x # xs) =
     queue_top (if cell_max_fitness best < cell_max_fitness x then x else best) xs"

text \<open>Lines 185-188: the inner loop that covers one column with initial cells.\<close>

fun cover_column ::
  "nat \<Rightarrow> real \<Rightarrow> real \<Rightarrow> real \<Rightarrow> real \<Rightarrow> real \<Rightarrow> polygon \<Rightarrow> fitness_functor \<Rightarrow> cell list \<Rightarrow>
   error + cell list" where
  "cover_column 0 x y ymax cell_size h poly ff queue = Inl out_of_fuel"
| "cover_column (Suc fuel) x y ymax cell_size h poly ff queue =
     (if y < ymax
      then (case make_cell (point (x + h) (y + h)) h poly ff of
              Inl e \<Rightarrow> Inl e
            | Inr cl \<Rightarrow> cover_column fuel x (y + cell_size) ymax cell_size h poly ff (cl # queue))
      else Inr queue)"

text \<open>Lines 183-189: the outer loop.\<close>

fun cover_polygon ::
  "nat \<Rightarrow> nat \<Rightarrow> real \<Rightarrow> box2d \<Rightarrow> real \<Rightarrow> real \<Rightarrow> polygon \<Rightarrow> fitness_functor \<Rightarrow> cell list \<Rightarrow>
   error + cell list" where
  "cover_polygon 0 fuel_y x bbox cell_size h poly ff queue = Inl out_of_fuel"
| "cover_polygon (Suc fuel) fuel_y x bbox cell_size h poly ff queue =
     (if x < maxx bbox
      then (case cover_column fuel_y x (miny bbox) (maxy bbox) cell_size h poly ff queue of
              Inl e \<Rightarrow> Inl e
            | Inr queue' \<Rightarrow>
                cover_polygon fuel fuel_y (x + cell_size) bbox cell_size h poly ff queue')
      else Inr queue)"

text \<open>Lines 194-217: the search loop and the result.\<close>

fun polylabel_loop ::
  "nat \<Rightarrow> polygon \<Rightarrow> fitness_functor \<Rightarrow> real \<Rightarrow> cell list \<Rightarrow> cell \<Rightarrow> error + point" where
  "polylabel_loop fuel poly ff precision [] best_cell = Inr (cell_c best_cell)"
| "polylabel_loop 0 poly ff precision (x # xs) best_cell = Inl out_of_fuel"
| "polylabel_loop (Suc fuel) poly ff precision (x # xs) best_cell =
     (let current_cell = queue_top x xs;
          queue = remove1 current_cell (x # xs);
          best = (if cell_fitness current_cell > cell_fitness best_cell
                  then current_cell else best_cell)
      in if cell_max_fitness current_cell - cell_fitness best \<le> precision
         then polylabel_loop fuel poly ff precision queue best
         else (case checked_div (cell_h current_cell) 2 of
                 Inl e \<Rightarrow> Inl e
               | Inr h \<Rightarrow>
          (case make_cell (point (point_x (cell_c current_cell) - h)
                                 (point_y (cell_c current_cell) - h)) h poly ff of
             Inl e \<Rightarrow> Inl e
           | Inr c1 \<Rightarrow>
          (case make_cell (point (point_x (cell_c current_cell) + h)
                                 (point_y (cell_c current_cell) - h)) h poly ff of
             Inl e \<Rightarrow> Inl e
           | Inr c2 \<Rightarrow>
          (case make_cell (point (point_x (cell_c current_cell) - h)
                                 (point_y (cell_c current_cell) + h)) h poly ff of
             Inl e \<Rightarrow> Inl e
           | Inr c3 \<Rightarrow>
          (case make_cell (point (point_x (cell_c current_cell) + h)
                                 (point_y (cell_c current_cell) + h)) h poly ff of
             Inl e \<Rightarrow> Inl e
           | Inr c4 \<Rightarrow>
               polylabel_loop fuel poly ff precision (c4 # c3 # c2 # c1 # queue) best))))))"

text \<open>
  Lines 150-218. \<^verbatim>\<open>envelope\<close> (geometry_envelope.hpp) and
  \<^verbatim>\<open>mapnik::geometry::centroid\<close> (geometry_centroid.hpp) are not under src and are
  parameters; \<open>centroid_of\<close> answers \<open>None\<close> where the C++ returns false.
\<close>

definition polylabel ::
  "(linear_ring \<Rightarrow> box2d) \<Rightarrow> (polygon \<Rightarrow> point option) \<Rightarrow> nat \<Rightarrow> polygon \<Rightarrow> real \<Rightarrow> error + point" where
  "polylabel envelope centroid_of fuel poly precision =
     (let bbox = envelope (exterior_ring poly);
          sz = point (width bbox) (height bbox);
          cell_size = min (point_x sz) (point_y sz)
      in case checked_div cell_size 2 of
           Inl e \<Rightarrow> Inl e
         | Inr h \<Rightarrow>
             if cell_size = 0 then Inr (point (minx bbox) (miny bbox))
             else (case centroid_of poly of
                     None \<Rightarrow> Inr (center bbox)
                   | Some cen \<Rightarrow>
                       (let fitness_func = make_fitness_functor cen sz
                        in case cover_polygon fuel fuel (minx bbox) bbox cell_size h poly
                                  fitness_func [] of
                             Inl e \<Rightarrow> Inl e
                           | Inr queue \<Rightarrow>
                               (case make_cell cen 0 poly fitness_func of
                                  Inl e \<Rightarrow> Inl e
                                | Inr best_cell \<Rightarrow>
                                    polylabel_loop fuel poly fitness_func precision queue
                                      best_cell))))"

text \<open>Lines 222-228.\<close>

definition interior ::
  "(linear_ring \<Rightarrow> box2d) \<Rightarrow> (polygon \<Rightarrow> point option) \<Rightarrow> nat \<Rightarrow> polygon \<Rightarrow> real \<Rightarrow> error + point" where
  "interior envelope centroid_of fuel poly scale = polylabel envelope centroid_of fuel poly (10 * scale)"

section \<open>The bucket index in the words of the specification\<close>

text \<open>
  Section 4.4 and section 8 of the specification give the bucket index by a formula of
  numbers: \<open>floor (fraction * S)\<close> for the fractional part of each translation component,
  combined as \<open>y_bucket * S + x_bucket\<close>. This definition follows that wording, the
  fractional part being the exact one, for the comparison with \<open>sample_idx\<close>, which follows
  the code.
\<close>

definition spec_sample_idx :: "trans_affine \<Rightarrow> int" where
  "spec_sample_idx marker_tr =
     \<lfloor>(ty marker_tr - of_int \<lfloor>ty marker_tr\<rfloor>) * of_int sampling_rate\<rfloor> * sampling_rate
       + \<lfloor>(tx marker_tr - of_int \<lfloor>tx marker_tr\<rfloor>) * of_int sampling_rate\<rfloor>"

section \<open>The blit transform in the words of the specification\<close>

text \<open>
  Section 4.4 of the specification words the transform of the blit as "original translation
  minus the quantization remainder", the remainder being the difference between the
  fractional offset and the representative of its bucket, \<open>bucket / S\<close>. These two
  definitions follow that wording, for the comparison with \<open>blit_transform\<close>, which follows
  the code.
\<close>

definition quantization_remainder :: "trans_affine \<Rightarrow> real \<times> real" where
  "quantization_remainder marker_tr =
     (dx marker_tr - of_int (sample_x marker_tr) / of_int sampling_rate,
      dy marker_tr - of_int (sample_y marker_tr) / of_int sampling_rate)"

definition spec_blit_transform :: "trans_affine \<Rightarrow> trans_affine" where
  "spec_blit_transform marker_tr =
     marker_tr\<lparr>tx := tx marker_tr - fst (quantization_remainder marker_tr),
               ty := ty marker_tr - snd (quantization_remainder marker_tr)\<rparr>"

section \<open>Example inputs\<close>

text \<open>
  Concrete inputs for the examples below: a marker with the bounding box \<open>(0, 0, 10, 10)\<close>,
  a fill-only attribute record, a placement with uniform scale \<open>s\<close> and translation
  \<open>(a, b)\<close>, a two-pixel destination, and two stand-ins for the rasterization primitives:
  \<open>painting\<close> sets every pixel of the buffer it renders a path into and \<open>transparent\<close>
  sets none; both mark every pixel of the destination of a raster blit.
\<close>

abbreviation example_marker :: svg_path_ptr where
  "example_marker \<equiv>
     \<lparr>addr = 1, bounding_box = \<lparr>minx = 0, miny = 0, maxx = 10, maxy = 10\<rparr>,
      attributes = [], source = 7\<rparr>"

abbreviation example_attr :: path_attributes where
  "example_attr \<equiv>
     \<lparr>fill_flag = True, stroke_flag = False, stroke_width = 0,
      fill_gradient_type = NO_GRADIENT, stroke_gradient_type = NO_GRADIENT, other_fields = 0\<rparr>"

text \<open>A marker centred on the origin, and an attribute record with a stroke of width 2,
  which gives the margin 2.\<close>

abbreviation centred_marker :: svg_path_ptr where
  "centred_marker \<equiv>
     \<lparr>addr = 2, bounding_box = \<lparr>minx = - 5, miny = - 5, maxx = 5, maxy = 5\<rparr>,
      attributes = [], source = 8\<rparr>"

abbreviation stroked_attr :: path_attributes where
  "stroked_attr \<equiv>
     \<lparr>fill_flag = True, stroke_flag = True, stroke_width = 2,
      fill_gradient_type = NO_GRADIENT, stroke_gradient_type = NO_GRADIENT, other_fields = 0\<rparr>"

abbreviation placement :: "real \<Rightarrow> real \<Rightarrow> real \<Rightarrow> trans_affine" where
  "placement s a b \<equiv> \<lparr>sx = s, shy = 0, shx = 0, sy = s, tx = a, ty = b\<rparr>"

abbreviation example_params :: markers_dispatch_params where
  "example_params \<equiv>
     \<lparr>marker_size = \<lparr>minx = 0, miny = 0, maxx = 10, maxy = 10\<rparr>, tr = placement 1 0 0,
      spacing = 100, max_error = 1 / 5, allow_overlap = False, avoid_edges = False,
      direction = 0, placement_method = 0, ignore_placement = False, snap_to_pixels = False,
      scale_factor = 1, opacity = 1\<rparr>"

abbreviation painting :: rasterizers where
  "painting \<equiv>
     \<lparr>render_vector_marker =
        (\<lambda>path attrs clip target bbox t op snap. target\<lparr>pixels := map (\<lambda>p. 255) (pixels target)\<rparr>),
      render_raster_marker =
        (\<lambda>target clip src t op sc snap. target\<lparr>pixels := map (\<lambda>p. p + 1) (pixels target)\<rparr>)\<rparr>"

abbreviation transparent :: rasterizers where
  "transparent \<equiv>
     \<lparr>render_vector_marker = (\<lambda>path attrs clip target bbox t op snap. target),
      render_raster_marker =
        (\<lambda>target clip src t op sc snap. target\<lparr>pixels := map (\<lambda>p. p + 1) (pixels target)\<rparr>)\<rparr>"

abbreviation example_context :: agg_context where
  "example_context \<equiv>
     \<lparr>buf = \<lparr>img_width = 2, img_height = 1, pixels = [0, 0]\<rparr>, ras_clip_box = (0, 0, 2, 1),
      cached_images = []\<rparr>"

text \<open>A context whose cache holds a fill image and a stroke image for the centred marker
  with the stroked attribute record in the bucket 20, that of the placement at
  \<open>(1.5, 10.25)\<close>.\<close>

abbreviation cached_context :: agg_context where
  "cached_context \<equiv>
     \<lparr>buf = \<lparr>img_width = 2, img_height = 1, pixels = [0, 0]\<rparr>, ras_clip_box = (0, 0, 2, 1),
      cached_images =
        [((2, 20, stroked_attr),
          (Some \<lparr>img_width = 1, img_height = 1, pixels = [255]\<rparr>,
           Some \<lparr>img_width = 1, img_height = 1, pixels = [128]\<rparr>))]\<rparr>"

text \<open>A run of \<open>n\<close> calls of \<^verbatim>\<open>render_marker\<close>, each for another marker (the addresses
  \<open>0, 1, ..., n - 1\<close>) with the same bounding box, attribute record and placement.\<close>

fun render_run ::
  "rasterizers \<Rightarrow> svg_path_ptr \<Rightarrow> nat \<Rightarrow> path_attributes \<Rightarrow> markers_dispatch_params \<Rightarrow>
   trans_affine \<Rightarrow> nat \<Rightarrow> agg_context \<Rightarrow> agg_context" where
  "render_run R src path a params marker_tr 0 st = st"
| "render_run R src path a params marker_tr (Suc n) st =
     render_marker R (src\<lparr>addr := n\<rparr>) path [a] params marker_tr
       (render_run R src path a params marker_tr n st)"

text \<open>
  Stand-ins for the collaborators of the visitor: the registry knows no marker and counts its
  lookups, no style is pushed, a property evaluates to its literal, no placement is granted.
  And a state with one cached attribute set, stored under the address 5 for the properties
  \<open>file = "a.svg"\<close>.
\<close>

abbreviation example_collaborators :: collaborators where
  "example_collaborators \<equiv>
     \<lparr>is_uri = (\<lambda>name. False),
      marker_find = (\<lambda>name update reg. (marker_null, Suc reg)),
      push_explicit_style = (\<lambda>attrs symbolizer feature. None),
      extract_string = (\<lambda>feature v. case v of value_string s \<Rightarrow> s | _ \<Rightarrow> []),
      extract_double = (\<lambda>feature v. case v of value_double d \<Rightarrow> d | _ \<Rightarrow> 0),
      get_bool = (\<lambda>symbolizer key feature. False),
      get_double = (\<lambda>symbolizer key feature. 0),
      get_enum = (\<lambda>symbolizer key feature. 0),
      setup_transform_scaling = (\<lambda>t w h feature symbolizer. t),
      evaluate_transform = (\<lambda>t feature v scale. t),
      build_ellipse = (\<lambda>symbolizer feature a. example_marker\<lparr>addr := a\<rparr>),
      geometry_type = (\<lambda>feature. Point),
      recenter = (\<lambda>bbox t. t),
      apply_markers_multi = (\<lambda>feature tags geom_tr symbolizer params d. ([], d))\<rparr>"

abbreviation example_state :: render_state where
  "example_state \<equiv>
     \<lparr>cached_attributes = [(5, ([example_attr], [(keys_file, value_string ''a.svg'')]))],
      cached_ellipses = [], registry = 0, detector = 0, next_addr = 100,
      renderer_context = example_context\<rparr>"

section \<open>Facts about the rounding of doubles\<close>

lemma rne_of_int [simp]: "rne (of_int k) = k"
  by (simp add: rne_def)

lemma ulp_pos: "0 < ulp x"
  by (simp add: ulp_def)

lemma expo_eq:
  assumes "x \<noteq> 0" and "2 powi e \<le> \<bar>x\<bar>" and "\<bar>x\<bar> < 2 powi (e + 1)"
  shows "expo x = e"
proof -
  have pos: "0 < \<bar>x\<bar>" using assms(1) by simp
  have p: "(2::real) powr (of_int k) = 2 powi k" for k
    by (simp add: powr_real_of_int')
  have "2 powr (of_int e) \<le> \<bar>x\<bar>" "\<bar>x\<bar> < 2 powr (of_int (e + 1))"
    using assms(2,3) by (simp_all only: p)
  then show ?thesis
    unfolding expo_def using pos
    by (simp add: floor_log_eq_powr_iff)
qed

lemma expo_bounds:
  assumes "x \<noteq> 0"
  shows "2 powi (expo x) \<le> \<bar>x\<bar>" and "\<bar>x\<bar> < 2 powi (expo x + 1)"
proof -
  have pos: "0 < \<bar>x\<bar>" using assms by simp
  have p: "(2::real) powr (of_int k) = 2 powi k" for k
    by (simp add: powr_real_of_int')
  have "\<lfloor>log 2 \<bar>x\<bar>\<rfloor> = expo x" by (simp add: expo_def)
  then have "2 powr (of_int (expo x)) \<le> \<bar>x\<bar> \<and> \<bar>x\<bar> < 2 powr (of_int (expo x + 1))"
    using pos floor_log_eq_powr_iff [of "\<bar>x\<bar>" 2 "expo x"] by simp
  then show "2 powi (expo x) \<le> \<bar>x\<bar>" and "\<bar>x\<bar> < 2 powi (expo x + 1)"
    by (simp_all only: p)
qed

lemma round_double_eval:
  assumes "x \<noteq> 0" and "2 powi e \<le> \<bar>x\<bar>" and "\<bar>x\<bar> < 2 powi (e + 1)" and "- 1022 \<le> e"
  shows "round_double x = of_int (rne (x / 2 powi (e - 52))) * 2 powi (e - 52)"
  using assms by (simp add: round_double_def ulp_def expo_eq [OF assms(1,2,3)] max_def)

text \<open>The binary exponent by the bit length of an integer, which makes \<open>round_double\<close>
  a function that can be run.\<close>

lemma expo_code [code]:
  "expo x =
     (if x = 0 then 0
      else if 1 \<le> \<bar>x\<bar> then bitlen \<lfloor>\<bar>x\<bar>\<rfloor> - 1
      else - bitlen (\<lceil>1 / \<bar>x\<bar>\<rceil> - 1))"
proof (cases "x = 0")
  case True
  then show ?thesis by (simp add: expo_def log_def)
next
  case nz: False
  show ?thesis
  proof (cases "1 \<le> \<bar>x\<bar>")
    case True
    define n where "n = \<lfloor>\<bar>x\<bar>\<rfloor>"
    have n1: "1 \<le> n" using True by (simp add: n_def)
    then have n0: "0 < n" by simp
    have bl: "0 \<le> bitlen n - 1"
      using n0 bitlen_eq_zero_iff [of n] bitlen_nonneg [of n] by linarith
    have b: "2 ^ nat (bitlen n - 1) \<le> n" "n < 2 ^ nat (bitlen n)"
      using bitlen_bounds [OF n0] by simp_all
    have lo: "(2::real) powi (bitlen n - 1) \<le> \<bar>x\<bar>"
    proof -
      have "(2::real) powi (bitlen n - 1) = of_int (2 ^ nat (bitlen n - 1))"
        using bl by (simp add: power_int_def)
      also have "\<dots> \<le> of_int n" using b(1) by (simp only: of_int_le_iff)
      also have "\<dots> \<le> \<bar>x\<bar>" by (simp add: n_def)
      finally show ?thesis .
    qed
    have hi: "\<bar>x\<bar> < (2::real) powi (bitlen n - 1 + 1)"
    proof -
      have "n + 1 \<le> 2 ^ nat (bitlen n)" using b(2) by simp
      then have "of_int (n + 1) \<le> (of_int (2 ^ nat (bitlen n)) :: real)"
        by (simp only: of_int_le_iff)
      moreover have "\<bar>x\<bar> < of_int (n + 1)" by (simp add: n_def)
      moreover have "(2::real) powi (bitlen n - 1 + 1) = of_int (2 ^ nat (bitlen n))"
        using bl by (simp add: power_int_def)
      ultimately show ?thesis by simp
    qed
    show ?thesis
      using expo_eq [OF nz lo hi] True nz by (simp add: n_def)
  next
    case False
    then have lt: "\<bar>x\<bar> < 1" by simp
    have pos: "0 < \<bar>x\<bar>" using nz by simp
    define y where "y = 1 / \<bar>x\<bar>"
    define m where "m = \<lceil>y\<rceil> - 1"
    have y1: "1 < y" using lt pos by (simp add: y_def)
    have m1: "1 \<le> m" using y1 unfolding m_def by linarith
    then have m0: "0 < m" by simp
    have bl: "0 \<le> bitlen m - 1" "0 \<le> bitlen m"
      using m0 bitlen_eq_zero_iff [of m] bitlen_nonneg [of m] by linarith+
    have b: "2 ^ nat (bitlen m - 1) \<le> m" "m < 2 ^ nat (bitlen m)"
      using bitlen_bounds [OF m0] by simp_all
    have my: "of_int m < y" "y \<le> of_int (m + 1)"
      unfolding m_def by linarith+
    have yhi: "y \<le> 2 powi (bitlen m)"
    proof -
      have "m + 1 \<le> 2 ^ nat (bitlen m)" using b(2) by simp
      then have "of_int (m + 1) \<le> (of_int (2 ^ nat (bitlen m)) :: real)"
        by (simp only: of_int_le_iff)
      moreover have "(2::real) powi (bitlen m) = of_int (2 ^ nat (bitlen m))"
        using bl by (simp add: power_int_def)
      ultimately show ?thesis using my(2) by simp
    qed
    have ylo: "2 powi (bitlen m - 1) < y"
    proof -
      have "(2::real) powi (bitlen m - 1) = of_int (2 ^ nat (bitlen m - 1))"
        using bl by (simp add: power_int_def)
      also have "\<dots> \<le> of_int m" using b(1) by (simp only: of_int_le_iff)
      finally show ?thesis using my(1) by simp
    qed
    have xy: "\<bar>x\<bar> = 1 / y" using pos by (simp add: y_def)
    have p2: "0 < (2::real) powi k" for k by simp
    have lo: "(2::real) powi (- bitlen m) \<le> \<bar>x\<bar>"
    proof -
      have "1 / (2 powi (bitlen m)) \<le> 1 / y"
        using yhi y1 by (intro divide_left_mono) simp_all
      then show ?thesis by (simp add: xy power_int_minus divide_simps)
    qed
    have hi: "\<bar>x\<bar> < (2::real) powi (- bitlen m + 1)"
    proof -
      have "1 / y < 1 / (2 powi (bitlen m - 1))"
        using ylo y1 p2 [of "bitlen m - 1"] by (intro divide_strict_left_mono) simp_all
      moreover have "(2::real) powi (- bitlen m + 1) = 1 / (2 powi (bitlen m - 1))"
      proof -
        have "(2::real) powi (- bitlen m + 1) * 2 powi (bitlen m - 1) = 2 powi 0"
          by (subst power_int_add [symmetric]) simp_all
        then show ?thesis
          by (simp add: divide_simps)
      qed
      ultimately show ?thesis by (simp add: xy)
    qed
    show ?thesis
      using expo_eq [OF nz lo hi] False nz by (simp add: m_def y_def)
  qed
qed

text \<open>The evaluation of \<open>round_double\<close> at a number, for the binary exponents of the
  examples.\<close>

lemmas rd_evals =
  round_double_eval [where e = 3] round_double_eval [where e = 2] round_double_eval [where e = 1]
  round_double_eval [where e = 0] round_double_eval [where e = "- 1"]
  round_double_eval [where e = "- 2"] round_double_eval [where e = "- 3"]
  round_double_eval [where e = "- 4"]

lemma rne_nonneg: "0 \<le> q \<Longrightarrow> 0 \<le> rne q"
  by (auto simp: rne_def Let_def)

lemma round_double_0 [simp]: "round_double 0 = 0"
  by (simp add: round_double_def)

lemma round_double_nonneg: "0 \<le> x \<Longrightarrow> 0 \<le> round_double x"
  using ulp_pos [of x] by (simp add: round_double_def rne_nonneg less_imp_le)

lemma round_double_grid:
  assumes "x = of_int k * ulp x"
  shows "round_double x = x"
proof (cases "x = 0")
  case True
  then show ?thesis by simp
next
  case False
  have "x / ulp x = of_int k"
    using assms ulp_pos [of x] by (metis less_irrefl nonzero_eq_divide_eq)
  then show ?thesis
    using assms False by (simp add: round_double_def)
qed

lemma is_double_grid:
  assumes "is_double x"
  shows "\<exists>k. x = of_int k * ulp x"
proof (cases "x = 0")
  case True
  then show ?thesis by (intro exI [of _ 0]) simp
next
  case False
  then have "x = of_int (rne (x / ulp x)) * ulp x"
    using assms by (simp add: is_double_def round_double_def)
  then show ?thesis ..
qed

lemma powi_nonneg_int: "0 \<le> m \<Longrightarrow> \<exists>j::int. (2::real) powi m = of_int j"
  by (intro exI [of _ "2 ^ nat m"]) (simp add: power_int_def)

lemma is_double_frac:
  assumes d: "is_double t" and nn: "0 \<le> t"
  shows "round_double (t - of_int \<lfloor>t\<rfloor>) = t - of_int \<lfloor>t\<rfloor>"
proof (cases "t < 1")
  case True
  then have "\<lfloor>t\<rfloor> = 0" using nn by (simp add: floor_eq_iff)
  then show ?thesis using d by (simp add: is_double_def)
next
  case False
  then have t1: "1 \<le> t" by simp
  let ?y = "t - of_int \<lfloor>t\<rfloor>"
  show ?thesis
  proof (cases "?y = 0")
    case True
    then show ?thesis by simp
  next
    case y0: False
    have t0: "t \<noteq> 0" using t1 by simp
    have ylt: "\<bar>?y\<bar> < 1" and yge: "0 \<le> ?y"
      by linarith+
    have et: "0 \<le> expo t"
    proof (rule ccontr)
      assume "\<not> 0 \<le> expo t"
      then have "expo t + 1 \<le> 0" by simp
      then have "(2::real) powi (expo t + 1) \<le> 2 powi 0"
        by (intro power_int_increasing) simp_all
      then show False
        using expo_bounds(2) [OF t0] t1 by simp
    qed
    have ey: "expo ?y \<le> - 1"
    proof (rule ccontr)
      assume "\<not> expo ?y \<le> - 1"
      then have "0 \<le> expo ?y" by simp
      then have "(2::real) powi 0 \<le> 2 powi (expo ?y)"
        by (intro power_int_increasing) simp_all
      then show False
        using expo_bounds(1) [OF y0] ylt by simp
    qed
    define a where "a = max (expo t) (- 1022) - 52"
    define b where "b = max (expo ?y) (- 1022) - 52"
    have ab: "0 \<le> a - b" and nb: "0 \<le> - b"
      using et ey by (simp_all add: a_def b_def max_def)
    obtain k where k: "t = of_int k * 2 powi a"
      using is_double_grid [OF d] by (auto simp: ulp_def a_def)
    obtain j1 where j1: "(2::real) powi (a - b) = of_int j1"
      using powi_nonneg_int [OF ab] by blast
    obtain j2 where j2: "(2::real) powi (- b) = of_int j2"
      using powi_nonneg_int [OF nb] by blast
    have split_a: "(2::real) powi a = 2 powi (a - b) * 2 powi b"
      by (simp add: power_int_add [symmetric])
    have one: "(1::real) = 2 powi (- b) * 2 powi b"
      by (simp add: power_int_add [symmetric])
    have "?y = of_int k * (2 powi (a - b) * 2 powi b) - of_int \<lfloor>t\<rfloor> * (2 powi (- b) * 2 powi b)"
      using k split_a one by (metis mult.right_neutral)
    also have "\<dots> = of_int (k * j1 - \<lfloor>t\<rfloor> * j2) * 2 powi b"
      by (simp add: j1 j2 algebra_simps)
    finally have "?y = of_int (k * j1 - \<lfloor>t\<rfloor> * j2) * ulp ?y"
      by (simp add: ulp_def b_def)
    then show ?thesis
      by (rule round_double_grid)
  qed
qed

section \<open>Facts about ordered maps\<close>

lemma omap_keys_emplace:
  "set (omap_keys (omap_emplace k v m)) = insert k (set (omap_keys m))"
  by (induction k v m rule: omap_emplace.induct) (auto simp: omap_keys_def)

lemma omap_keys_assign:
  "set (omap_keys (omap_assign k v m)) = insert k (set (omap_keys m))"
  by (induction k v m rule: omap_assign.induct) (auto simp: omap_keys_def)

lemma omap_inv_emplace: "omap_inv m \<Longrightarrow> omap_inv (omap_emplace k v m)"
proof (induction m)
  case Nil
  then show ?case by (simp add: omap_inv_def omap_keys_def)
next
  case (Cons a m)
  obtain k' v' where a: "a = (k', v')" by (cases a)
  have tl_inv: "omap_inv m"
    using Cons.prems by (simp add: omap_inv_def omap_keys_def)
  have keys: "set (map fst (omap_emplace k v m)) = insert k (set (map fst m))"
    using omap_keys_emplace [of k v m] by (simp add: omap_keys_def)
  show ?case
    using Cons.prems Cons.IH [OF tl_inv] keys
    by (auto simp: a omap_inv_def omap_keys_def)
qed

lemma omap_inv_assign: "omap_inv m \<Longrightarrow> omap_inv (omap_assign k v m)"
proof (induction m)
  case Nil
  then show ?case by (simp add: omap_inv_def omap_keys_def)
next
  case (Cons a m)
  obtain k' v' where a: "a = (k', v')" by (cases a)
  have tl_inv: "omap_inv m"
    using Cons.prems by (simp add: omap_inv_def omap_keys_def)
  have keys: "set (map fst (omap_assign k v m)) = insert k (set (map fst m))"
    using omap_keys_assign [of k v m] by (simp add: omap_keys_def)
  show ?case
    using Cons.prems Cons.IH [OF tl_inv] keys
    by (auto simp: a omap_inv_def omap_keys_def)
qed

lemma omap_inv_erase_begin: "omap_inv m \<Longrightarrow> omap_inv (omap_erase_begin m)"
  by (cases m) (auto simp: omap_inv_def omap_keys_def)

lemma omap_inv_evict: "omap_inv m \<Longrightarrow> omap_inv (evict_if_full bound m)"
  by (simp add: evict_if_full_def omap_inv_erase_begin)

lemma omap_find_None_iff: "omap_find k m = None \<longleftrightarrow> k \<notin> set (omap_keys m)"
  by (induction m) (force simp: omap_keys_def)+

lemma omap_size_emplace:
  "omap_inv m \<Longrightarrow> omap_size (omap_emplace k v m) =
     (if k \<in> set (omap_keys m) then omap_size m else Suc (omap_size m))"
  by (induction m) (force simp: omap_size_def omap_keys_def omap_inv_def)+

lemma omap_size_assign:
  "omap_inv m \<Longrightarrow> omap_size (omap_assign k v m) =
     (if k \<in> set (omap_keys m) then omap_size m else Suc (omap_size m))"
  by (induction m) (force simp: omap_size_def omap_keys_def omap_inv_def)+

lemma omap_find_emplace_new:
  "omap_inv m \<Longrightarrow> k \<notin> set (omap_keys m) \<Longrightarrow> omap_find k (omap_emplace k v m) = Some v"
  by (induction m) (auto simp: omap_inv_def omap_keys_def)

lemma omap_find_emplace_other:
  "k' \<noteq> k \<Longrightarrow> omap_find k' (omap_emplace k v m) = omap_find k' m"
  by (induction m) auto

lemma omap_find_assign_same:
  "omap_inv m \<Longrightarrow> omap_find k (omap_assign k v m) = Some v"
  by (induction m) (auto simp: omap_inv_def omap_keys_def)

lemma omap_find_assign_other:
  "k' \<noteq> k \<Longrightarrow> omap_find k' (omap_assign k v m) = omap_find k' m"
  by (induction m) auto

lemma omap_keys_erase_begin:
  assumes "omap_inv m" and "m \<noteq> []"
  shows "set (omap_keys (omap_erase_begin m)) = set (omap_keys m) - {Min (set (omap_keys m))}"
proof -
  obtain k v m' where m: "m = (k, v) # m'"
    using assms(2) by (cases m) auto
  have less: "\<forall>x \<in> set (map fst m'). k < x"
    using assms(1) by (simp add: m omap_inv_def omap_keys_def)
  have "Min (insert k (set (map fst m'))) = k"
    by (rule Min_eqI) (use less in \<open>auto intro: less_imp_le\<close>)
  moreover have "k \<notin> set (map fst m')"
    using less by auto
  ultimately show ?thesis
    by (simp add: m omap_keys_def)
qed

lemma omap_size_erase_begin: "m \<noteq> [] \<Longrightarrow> Suc (omap_size (omap_erase_begin m)) = omap_size m"
  by (cases m) (auto simp: omap_size_def)

lemma omap_size_evict_le: "omap_size (evict_if_full bound m) \<le> omap_size m"
  by (cases m) (auto simp: evict_if_full_def omap_size_def)

lemma omap_keys_evict_subset:
  "set (omap_keys (evict_if_full bound m)) \<subseteq> set (omap_keys m)"
  by (cases m) (auto simp: evict_if_full_def omap_keys_def)

lemma evict_if_full_small: "omap_size m \<le> bound \<Longrightarrow> evict_if_full bound m = m"
  by (simp add: evict_if_full_def)

lemma emplace_run_below:
  "n \<le> Suc bound \<Longrightarrow>
     omap_inv (insert_run (\<lambda>k. cache_emplace bound k v) n []) \<and>
     set (omap_keys (insert_run (\<lambda>k. cache_emplace bound k v) n [])) = {..<n} \<and>
     omap_size (insert_run (\<lambda>k. cache_emplace bound k v) n []) = n"
proof (induction n)
  case 0
  then show ?case by (simp add: omap_inv_def omap_keys_def omap_size_def)
next
  case (Suc n)
  let ?m = "insert_run (\<lambda>k. cache_emplace bound k v) n []"
  have ih: "omap_inv ?m" "set (omap_keys ?m) = {..<n}" "omap_size ?m = n"
    using Suc by simp_all
  have keep: "evict_if_full bound ?m = ?m"
    using ih(3) Suc.prems by (simp add: evict_if_full_small)
  have new: "n \<notin> set (omap_keys ?m)"
    using ih(2) by simp
  have "omap_inv (omap_emplace n v ?m)"
    using ih(1) by (rule omap_inv_emplace)
  moreover have "set (omap_keys (omap_emplace n v ?m)) = {..<Suc n}"
    by (simp add: omap_keys_emplace ih(2) lessThan_Suc)
  moreover have "omap_size (omap_emplace n v ?m) = Suc n"
    using new by (simp add: omap_size_emplace [OF ih(1)] ih(3))
  moreover have "insert_run (\<lambda>k. cache_emplace bound k v) (Suc n) [] = omap_emplace n v ?m"
    by (simp add: cache_emplace_def [of bound n v ?m] keep)
  ultimately show ?case
    by (simp only:)
qed

lemma assign_run_below:
  "n \<le> Suc bound \<Longrightarrow>
     omap_inv (insert_run (\<lambda>k. cache_assign bound k v) n []) \<and>
     set (omap_keys (insert_run (\<lambda>k. cache_assign bound k v) n [])) = {..<n} \<and>
     omap_size (insert_run (\<lambda>k. cache_assign bound k v) n []) = n"
proof (induction n)
  case 0
  then show ?case by (simp add: omap_inv_def omap_keys_def omap_size_def)
next
  case (Suc n)
  let ?m = "insert_run (\<lambda>k. cache_assign bound k v) n []"
  have ih: "omap_inv ?m" "set (omap_keys ?m) = {..<n}" "omap_size ?m = n"
    using Suc by simp_all
  have keep: "evict_if_full bound ?m = ?m"
    using ih(3) Suc.prems by (simp add: evict_if_full_small)
  have new: "n \<notin> set (omap_keys ?m)"
    using ih(2) by simp
  have "omap_inv (omap_assign n v ?m)"
    using ih(1) by (rule omap_inv_assign)
  moreover have "set (omap_keys (omap_assign n v ?m)) = {..<Suc n}"
    by (simp add: omap_keys_assign ih(2) lessThan_Suc)
  moreover have "omap_size (omap_assign n v ?m) = Suc n"
    using new by (simp add: omap_size_assign [OF ih(1)] ih(3))
  moreover have "insert_run (\<lambda>k. cache_assign bound k v) (Suc n) [] = omap_assign n v ?m"
    by (simp add: cache_assign_def [of bound n v ?m] keep)
  ultimately show ?case
    by (simp only:)
qed

lemma omap_find_erase_begin:
  "omap_inv m \<Longrightarrow> m \<noteq> [] \<Longrightarrow> k \<noteq> Min (set (omap_keys m)) \<Longrightarrow>
     omap_find k (omap_erase_begin m) = omap_find k m"
proof -
  assume inv: "omap_inv m" and ne: "m \<noteq> []" and k: "k \<noteq> Min (set (omap_keys m))"
  obtain k0 v0 m' where m: "m = (k0, v0) # m'"
    using ne by (cases m) auto
  have less: "\<forall>x \<in> set (map fst m'). k0 < x"
    using inv by (simp add: m omap_inv_def omap_keys_def)
  have "Min (insert k0 (set (map fst m'))) = k0"
    by (rule Min_eqI) (use less in \<open>auto intro: less_imp_le\<close>)
  then show ?thesis
    using k by (simp add: m omap_keys_def)
qed

section \<open>The eviction order\<close>

text \<open>
  C7. When an insertion triggers the eviction (the cache holds more than \<open>bound\<close>
  entries), the entry that goes is the one with the smallest key of the ordered map, whatever
  was looked up before: the keys afterwards are the old keys without their minimum, with the
  inserted key, and every other entry keeps its value. This holds for the insertion by
  \<^verbatim>\<open>emplace\<close> (rendered images, ellipses) and by \<^verbatim>\<open>operator[]\<close> (attributes).
\<close>

theorem eviction_removes_first_key:
  assumes "omap_inv m" and "bound < omap_size m"
  shows "set (omap_keys (cache_emplace bound k v m)) =
           insert k (set (omap_keys m) - {Min (set (omap_keys m))})
       \<and> set (omap_keys (cache_assign bound k v m)) =
           insert k (set (omap_keys m) - {Min (set (omap_keys m))})
       \<and> (\<forall>k'. k' \<noteq> k \<and> k' \<noteq> Min (set (omap_keys m)) \<longrightarrow>
            omap_find k' (cache_emplace bound k v m) = omap_find k' m
          \<and> omap_find k' (cache_assign bound k v m) = omap_find k' m)"
proof -
  have ne: "m \<noteq> []"
    using assms(2) by (auto simp: omap_size_def)
  have ev: "evict_if_full bound m = omap_erase_begin m"
    using assms(2) by (simp add: evict_if_full_def)
  show ?thesis
    using assms(1) ne
    by (simp add: cache_emplace_def cache_assign_def ev omap_keys_emplace omap_keys_assign
        omap_keys_erase_begin omap_find_emplace_other omap_find_assign_other
        omap_find_erase_begin)
qed

theorem eviction_removes_first_key_witness:
  "set (omap_keys (cache_emplace 2 (9::nat) CHR ''n'' [(3, CHR ''a''), (5, CHR ''b''), (7, CHR ''c'')])) = {5, 7, 9}
   \<and> set (omap_keys (cache_assign 2 (5::nat) CHR ''n'' [(3, CHR ''a''), (5, CHR ''b''), (7, CHR ''c'')])) = {5, 7}"
proof -
  have inv: "omap_inv [(3::nat, CHR ''a''), (5, CHR ''b''), (7, CHR ''c'')]"
    by (simp add: omap_inv_def omap_keys_def)
  have sz: "2 < omap_size [(3::nat, CHR ''a''), (5, CHR ''b''), (7, CHR ''c'')]"
    by (simp add: omap_size_def)
  have mn: "Min {3, 5, 7 :: nat} = 3" by simp
  show ?thesis
    using eviction_removes_first_key [OF inv sz, of 9 "CHR ''n''"]
          eviction_removes_first_key [OF inv sz, of 5 "CHR ''n''"]
    by (simp add: omap_keys_def mn) (auto)
qed

section \<open>Facts about the renderer context\<close>

lemma cached_images_blit [simp]: "cached_images (blit R img t params st) = cached_images st"
  by (cases img) (simp_all add: blit_def)

lemma ras_clip_box_blit [simp]: "ras_clip_box (blit R img t params st) = ras_clip_box st"
  by (cases img) (simp_all add: blit_def)

lemma blit_None [simp]: "blit R None t params st = st"
  by (simp add: blit_def)

lemma lookup_or_render_hit:
  "omap_find (image_cache_key src a marker_tr) (cached_images st) = Some imgs \<Longrightarrow>
     lookup_or_render R src path a params marker_tr st = (imgs, st)"
  by (simp add: lookup_or_render_def)

lemma lookup_or_render_miss:
  "omap_find (image_cache_key src a marker_tr) (cached_images st) = None \<Longrightarrow>
     lookup_or_render R src path a params marker_tr st =
       ((create_fill_image R src path a params marker_tr,
         create_stroke_image R src path a params marker_tr),
        st\<lparr>cached_images :=
              cache_emplace cache_size (image_cache_key src a marker_tr)
                (create_fill_image R src path a params marker_tr,
                 create_stroke_image R src path a params marker_tr) (cached_images st),
            ras_clip_box := (0, 0, img_width (buf st), img_height (buf st))\<rparr>)"
  by (simp add: lookup_or_render_def Let_def)

lemma omap_find_cache_emplace_new:
  assumes "omap_inv m" and "omap_find k m = None"
  shows "omap_find k (cache_emplace bound k v m) = Some v"
proof -
  have "k \<notin> set (omap_keys m)"
    using assms(2) by (simp add: omap_find_None_iff)
  then have "k \<notin> set (omap_keys (evict_if_full bound m))"
    using omap_keys_evict_subset [of bound m] by blast
  then show ?thesis
    unfolding cache_emplace_def
    by (rule omap_find_emplace_new [OF omap_inv_evict [OF assms(1)]])
qed

lemma lookup_or_render_cached:
  assumes "omap_inv (cached_images st)"
  shows "omap_find (image_cache_key src a marker_tr)
           (cached_images (snd (lookup_or_render R src path a params marker_tr st))) =
         Some (fst (lookup_or_render R src path a params marker_tr st))"
proof (cases "omap_find (image_cache_key src a marker_tr) (cached_images st)")
  case None
  then show ?thesis
    using omap_find_cache_emplace_new [OF assms None]
    by (simp add: lookup_or_render_miss)
next
  case (Some imgs)
  then show ?thesis
    by (simp add: lookup_or_render_hit)
qed

lemma render_marker_cached_path:
  "length attrs = 1 \<Longrightarrow> cacheable marker_tr \<Longrightarrow>
     render_marker R src path attrs params marker_tr st =
       blit R (snd (fst (lookup_or_render R src path (attrs ! 0) params marker_tr st)))
         (blit_transform src (attrs ! 0) marker_tr) params
         (blit R (fst (fst (lookup_or_render R src path (attrs ! 0) params marker_tr st)))
            (blit_transform src (attrs ! 0) marker_tr) params
            (snd (lookup_or_render R src path (attrs ! 0) params marker_tr st)))"
  by (simp add: render_marker_def Let_def split_beta)

lemma render_marker_uncached_path:
  "\<not> (length attrs = 1 \<and> cacheable marker_tr) \<Longrightarrow>
     render_marker R src path attrs params marker_tr st =
       st\<lparr>buf := render_vector_marker R path attrs (ras_clip_box st) (buf st)
                   (bounding_box src) marker_tr (opacity params) (snap_to_pixels params)\<rparr>"
  by (auto simp: render_marker_def)

section \<open>When the rendered-image cache is used\<close>

text \<open>
  C2. \<^verbatim>\<open>render_marker\<close> uses the rendered-image cache exactly when the attribute set has
  one record and the placement transform has unit scale and no shear. Then the key of the
  placement is in the cache after the call, and an entry found under it is what is blitted,
  with no rasterization. Otherwise the call is the one full rasterization into the
  destination and the cache is as before; so two placements at scale 2 rasterize twice.
\<close>

theorem render_marker_cache_applicability:
  assumes "omap_inv (cached_images st)"
  shows "(length attrs = 1 \<and> sx marker_tr = 1 \<and> sy marker_tr = 1
            \<and> shx marker_tr = 0 \<and> shy marker_tr = 0 \<longrightarrow>
          omap_find (image_cache_key src (attrs ! 0) marker_tr)
            (cached_images (render_marker R src path attrs params marker_tr st)) \<noteq> None
          \<and> (\<forall>imgs. omap_find (image_cache_key src (attrs ! 0) marker_tr) (cached_images st)
                      = Some imgs \<longrightarrow>
                 render_marker R src path attrs params marker_tr st =
                   blit R (snd imgs) (blit_transform src (attrs ! 0) marker_tr) params
                     (blit R (fst imgs) (blit_transform src (attrs ! 0) marker_tr) params st)))
       \<and> (\<not> (length attrs = 1 \<and> sx marker_tr = 1 \<and> sy marker_tr = 1
               \<and> shx marker_tr = 0 \<and> shy marker_tr = 0) \<longrightarrow>
          render_marker R src path attrs params marker_tr st =
            st\<lparr>buf := render_vector_marker R path attrs (ras_clip_box st) (buf st)
                        (bounding_box src) marker_tr (opacity params) (snap_to_pixels params)\<rparr>
          \<and> cached_images (render_marker R src path attrs params marker_tr st) = cached_images st)"
proof (cases "length attrs = 1 \<and> cacheable marker_tr")
  case True
  then have len: "length attrs = 1" and c: "cacheable marker_tr" by simp_all
  have populated: "omap_find (image_cache_key src (attrs ! 0) marker_tr)
           (cached_images (render_marker R src path attrs params marker_tr st)) \<noteq> None"
    using lookup_or_render_cached [OF assms, of src "attrs ! 0" marker_tr R path params]
    by (simp add: render_marker_cached_path [OF len c])
  have hit: "render_marker R src path attrs params marker_tr st =
                   blit R (snd imgs) (blit_transform src (attrs ! 0) marker_tr) params
                     (blit R (fst imgs) (blit_transform src (attrs ! 0) marker_tr) params st)"
    if "omap_find (image_cache_key src (attrs ! 0) marker_tr) (cached_images st) = Some imgs"
    for imgs
    using that by (simp add: render_marker_cached_path [OF len c] lookup_or_render_hit)
  have pos: "length attrs = 1 \<and> sx marker_tr = 1 \<and> sy marker_tr = 1
               \<and> shx marker_tr = 0 \<and> shy marker_tr = 0"
    using True unfolding cacheable_def .
  show ?thesis
    using pos populated hit by blast
next
  case False
  have neg: "\<not> (length attrs = 1 \<and> sx marker_tr = 1 \<and> sy marker_tr = 1
               \<and> shx marker_tr = 0 \<and> shy marker_tr = 0)"
    using False unfolding cacheable_def .
  have eq: "render_marker R src path attrs params marker_tr st =
            st\<lparr>buf := render_vector_marker R path attrs (ras_clip_box st) (buf st)
                        (bounding_box src) marker_tr (opacity params) (snap_to_pixels params)\<rparr>"
    by (rule render_marker_uncached_path [OF False])
  have same: "cached_images (render_marker R src path attrs params marker_tr st) = cached_images st"
    by (simp add: eq)
  show ?thesis
    using neg eq same by blast
qed


theorem render_marker_cache_applicability_witness:
  "omap_inv (cached_images example_context)
   \<and> render_marker painting example_marker 7 [example_attr] example_params (placement 2 10.3 10.7)
        example_context
      = example_context\<lparr>buf := \<lparr>img_width = 2, img_height = 1, pixels = [255, 255]\<rparr>\<rparr>
   \<and> cached_images
        (render_marker painting example_marker 7 [example_attr] example_params
           (placement 2 10.3 10.7)
           (render_marker painting example_marker 7 [example_attr] example_params
              (placement 2 10.3 10.7) example_context)) = []
   \<and> omap_find (1, 42, example_attr)
        (cached_images
           (render_marker painting example_marker 7 [example_attr] example_params
              (placement 1 10.3 10.7) example_context)) \<noteq> None"
proof -
  have inv: "omap_inv (cached_images example_context)"
    by (simp add: omap_inv_def omap_keys_def)
  have idx: "sample_idx (placement 1 10.3 10.7) = 42"
    by (simp add: sample_idx_def sample_x_def sample_y_def dx_def dy_def sampling_rate_def
        round_double_eval [where e = "- 1"] round_double_eval [where e = "- 2"] rne_def Let_def)
  note first = render_marker_cache_applicability [OF inv, of "[example_attr]" "placement 2 10.3 10.7"
        example_marker painting 7 example_params]
  have inv2: "omap_inv (cached_images (example_context\<lparr>buf := \<lparr>img_width = 2, img_height = 1, pixels = [255, 255]\<rparr>\<rparr>))"
    by (simp add: omap_inv_def omap_keys_def)
  note second = render_marker_cache_applicability [OF inv2, of "[example_attr]" "placement 2 10.3 10.7"
        example_marker painting 7 example_params]
  note unit = render_marker_cache_applicability [OF inv, of "[example_attr]" "placement 1 10.3 10.7"
        example_marker painting 7 example_params]
  show ?thesis
    using inv first second unit
    by (simp add: image_cache_key_def idx)
qed

section \<open>Facts about a second placement in the same bucket\<close>

lemma cacheable_update_translation:
  "cacheable (marker_tr\<lparr>tx := a, ty := b\<rparr>) = cacheable marker_tr"
  by (simp add: cacheable_def)

lemma render_marker_second_hit:
  assumes inv: "omap_inv (cached_images st)"
    and c1: "cacheable tr1" and c2: "cacheable tr2"
    and idx: "sample_idx tr2 = sample_idx tr1"
  shows "\<exists>imgs. omap_find (image_cache_key src a tr2)
                  (cached_images (render_marker R src path [a] params tr1 st)) = Some imgs
          \<and> render_marker R src path [a] params tr2 (render_marker R src path [a] params tr1 st) =
              blit R (snd imgs) (blit_transform src a tr2) params
                (blit R (fst imgs) (blit_transform src a tr2) params
                   (render_marker R src path [a] params tr1 st))"
proof -
  let ?st1 = "render_marker R src path [a] params tr1 st"
  have key: "image_cache_key src a tr2 = image_cache_key src a tr1"
    by (simp add: image_cache_key_def idx)
  have len: "length [a] = 1" by simp
  have found: "omap_find (image_cache_key src a tr1) (cached_images ?st1) =
                 Some (fst (lookup_or_render R src path a params tr1 st))"
    using lookup_or_render_cached [OF inv, of src a tr1 R path params]
    by (simp add: render_marker_cached_path [OF len c1])
  have hit: "lookup_or_render R src path a params tr2 ?st1 =
               (fst (lookup_or_render R src path a params tr1 st), ?st1)"
    by (rule lookup_or_render_hit) (simp add: key found)
  show ?thesis
    using found by (simp add: key [symmetric] render_marker_cached_path [OF len c2] hit)
qed

lemma sample_idx_eq:
  "sample_idx marker_tr = \<lfloor>dy marker_tr * 8\<rfloor> * 8 + \<lfloor>dx marker_tr * 8\<rfloor>"
  by (simp add: sample_idx_def sample_x_def sample_y_def sampling_rate_def)

lemma sample_idx_exact:
  assumes "round_double (tx marker_tr - of_int \<lfloor>tx marker_tr\<rfloor>) = tx marker_tr - of_int \<lfloor>tx marker_tr\<rfloor>"
    and "round_double (ty marker_tr - of_int \<lfloor>ty marker_tr\<rfloor>) = ty marker_tr - of_int \<lfloor>ty marker_tr\<rfloor>"
  shows "sample_idx marker_tr =
     \<lfloor>(ty marker_tr - of_int \<lfloor>ty marker_tr\<rfloor>) * 8\<rfloor> * 8
       + \<lfloor>(tx marker_tr - of_int \<lfloor>tx marker_tr\<rfloor>) * 8\<rfloor>"
  by (simp only: sample_idx_eq dx_def dy_def assms)

lemma sample_idx_10_3:
  "sample_idx (marker_tr\<lparr>tx := round_double 10.3, ty := round_double 10.7\<rparr>) = 5 * 8 + 2"
  by (simp add: sample_idx_eq dx_def dy_def rd_evals rne_def Let_def)

lemma sample_idx_10_35:
  "sample_idx (marker_tr\<lparr>tx := round_double 10.35, ty := round_double 10.72\<rparr>) = 5 * 8 + 2"
  by (simp add: sample_idx_eq dx_def dy_def rd_evals rne_def Let_def)

section \<open>The bucket index of a placement\<close>

text \<open>
  C3, as the claim states it: for every cacheable placement the bucket index is
  \<open>floor ((ty - floor ty) * 8) * 8 + floor ((tx - floor tx) * 8)\<close>. The code computes the
  fractional parts in double arithmetic. For the cacheable placement with the translation
  \<open>(- 2 ^ -70, 0.5)\<close>, both doubles, the difference \<open>tx - floor tx = 1 - 2 ^ -70\<close> rounds to
  \<open>1\<close>, so the code takes \<open>sample_x = 8\<close> and the index \<open>4 * 8 + 8 = 40\<close>, where the formula
  gives \<open>4 * 8 + 7 = 39\<close>.
\<close>

theorem sample_idx_not_spec:
  "cacheable (placement 1 (- (1 / 2 ^ 70)) (1 / 2))
   \<and> is_double (- (1 / 2 ^ 70)) \<and> is_double (1 / 2)
   \<and> dx (placement 1 (- (1 / 2 ^ 70)) (1 / 2)) = 1
   \<and> sample_idx (placement 1 (- (1 / 2 ^ 70)) (1 / 2)) = 40
   \<and> spec_sample_idx (placement 1 (- (1 / 2 ^ 70)) (1 / 2)) = 39"
proof -
  have c: "cacheable (placement 1 (- (1 / 2 ^ 70)) (1 / 2))"
    by (simp add: cacheable_def)
  have d: "is_double (- (1 / 2 ^ 70)) \<and> is_double (1 / 2)"
    by (simp add: is_double_def round_double_eval [where e = "- 70"]
        round_double_eval [where e = "- 1"] rne_def Let_def)
  have x: "dx (placement 1 (- (1 / 2 ^ 70)) (1 / 2)) = 1"
    by (simp add: dx_def round_double_eval [where e = "- 1"] rne_def Let_def)
  have code: "sample_idx (placement 1 (- (1 / 2 ^ 70)) (1 / 2)) = 40"
    by (simp add: sample_idx_eq dx_def dy_def round_double_eval [where e = "- 1"] rne_def Let_def)
  have spec: "spec_sample_idx (placement 1 (- (1 / 2 ^ 70)) (1 / 2)) = 39"
    by (simp add: spec_sample_idx_def sampling_rate_def)
  show ?thesis
    using c d x code spec by blast
qed

text \<open>
  C3, amended. With the sampling rate 8, the bucket index in the key of the rendered-image
  cache is \<open>floor ((ty - floor ty) * 8) * 8 + floor ((tx - floor tx) * 8)\<close> for every
  placement whose two fractional parts are exact in double arithmetic, and they are for
  every placement whose translation components are doubles that are not negative. The
  placement at \<open>(10.3, 10.7)\<close> (the doubles nearest to these numbers) has the index
  \<open>5 * 8 + 2 = 42\<close>, the one at \<open>(10.35, 10.72)\<close> has the same, and rendering the second
  after the first finds the entry of the first: the second call only blits the cached
  images.
\<close>

theorem sample_idx_bucket:
  "image_cache_key src a marker_tr = (addr src, sample_idx marker_tr, a)
   \<and> (round_double (tx marker_tr - of_int \<lfloor>tx marker_tr\<rfloor>) = tx marker_tr - of_int \<lfloor>tx marker_tr\<rfloor>
        \<and> round_double (ty marker_tr - of_int \<lfloor>ty marker_tr\<rfloor>) = ty marker_tr - of_int \<lfloor>ty marker_tr\<rfloor>
        \<longrightarrow>
      sample_idx marker_tr =
        \<lfloor>(ty marker_tr - of_int \<lfloor>ty marker_tr\<rfloor>) * 8\<rfloor> * 8
          + \<lfloor>(tx marker_tr - of_int \<lfloor>tx marker_tr\<rfloor>) * 8\<rfloor>)
   \<and> (is_double (tx marker_tr) \<and> is_double (ty marker_tr)
        \<and> 0 \<le> tx marker_tr \<and> 0 \<le> ty marker_tr \<longrightarrow>
      sample_idx marker_tr =
        \<lfloor>(ty marker_tr - of_int \<lfloor>ty marker_tr\<rfloor>) * 8\<rfloor> * 8
          + \<lfloor>(tx marker_tr - of_int \<lfloor>tx marker_tr\<rfloor>) * 8\<rfloor>)
   \<and> sample_idx (marker_tr\<lparr>tx := round_double 10.3, ty := round_double 10.7\<rparr>) = 5 * 8 + 2
   \<and> sample_idx (marker_tr\<lparr>tx := round_double 10.35, ty := round_double 10.72\<rparr>) = 5 * 8 + 2
   \<and> (omap_inv (cached_images st) \<and> cacheable marker_tr \<longrightarrow>
        (\<exists>imgs. omap_find
                   (image_cache_key src a (marker_tr\<lparr>tx := round_double 10.35, ty := round_double 10.72\<rparr>))
                   (cached_images
                      (render_marker R src path [a] params
                         (marker_tr\<lparr>tx := round_double 10.3, ty := round_double 10.7\<rparr>) st))
                   = Some imgs
          \<and> render_marker R src path [a] params
               (marker_tr\<lparr>tx := round_double 10.35, ty := round_double 10.72\<rparr>)
               (render_marker R src path [a] params
                  (marker_tr\<lparr>tx := round_double 10.3, ty := round_double 10.7\<rparr>) st) =
              blit R (snd imgs)
                (blit_transform src a (marker_tr\<lparr>tx := round_double 10.35, ty := round_double 10.72\<rparr>))
                params
                (blit R (fst imgs)
                   (blit_transform src a
                      (marker_tr\<lparr>tx := round_double 10.35, ty := round_double 10.72\<rparr>))
                   params
                   (render_marker R src path [a] params
                      (marker_tr\<lparr>tx := round_double 10.3, ty := round_double 10.7\<rparr>) st))))"
proof -
  let ?t1 = "marker_tr\<lparr>tx := round_double 10.3, ty := round_double 10.7\<rparr>"
  let ?t2 = "marker_tr\<lparr>tx := round_double 10.35, ty := round_double 10.72\<rparr>"
  have key: "image_cache_key src a marker_tr = (addr src, sample_idx marker_tr, a)"
    by (simp add: image_cache_key_def)
  have exact: "sample_idx marker_tr =
        \<lfloor>(ty marker_tr - of_int \<lfloor>ty marker_tr\<rfloor>) * 8\<rfloor> * 8
          + \<lfloor>(tx marker_tr - of_int \<lfloor>tx marker_tr\<rfloor>) * 8\<rfloor>"
    if "round_double (tx marker_tr - of_int \<lfloor>tx marker_tr\<rfloor>) = tx marker_tr - of_int \<lfloor>tx marker_tr\<rfloor>
        \<and> round_double (ty marker_tr - of_int \<lfloor>ty marker_tr\<rfloor>) = ty marker_tr - of_int \<lfloor>ty marker_tr\<rfloor>"
    using that by (intro sample_idx_exact) simp_all
  have nonneg: "sample_idx marker_tr =
        \<lfloor>(ty marker_tr - of_int \<lfloor>ty marker_tr\<rfloor>) * 8\<rfloor> * 8
          + \<lfloor>(tx marker_tr - of_int \<lfloor>tx marker_tr\<rfloor>) * 8\<rfloor>"
    if "is_double (tx marker_tr) \<and> is_double (ty marker_tr)
        \<and> 0 \<le> tx marker_tr \<and> 0 \<le> ty marker_tr"
    using that by (intro sample_idx_exact is_double_frac) simp_all
  have hit: "\<exists>imgs. omap_find (image_cache_key src a ?t2)
                   (cached_images (render_marker R src path [a] params ?t1 st)) = Some imgs
          \<and> render_marker R src path [a] params ?t2 (render_marker R src path [a] params ?t1 st) =
              blit R (snd imgs) (blit_transform src a ?t2) params
                (blit R (fst imgs) (blit_transform src a ?t2) params
                   (render_marker R src path [a] params ?t1 st))"
    if "omap_inv (cached_images st) \<and> cacheable marker_tr"
  proof (rule render_marker_second_hit)
    show "omap_inv (cached_images st)" using that by simp
    show "cacheable ?t1"
      using that by (simp add: cacheable_update_translation)
    show "cacheable ?t2"
      using that by (simp add: cacheable_update_translation)
    show "sample_idx ?t2 = sample_idx ?t1"
      by (simp only: sample_idx_10_3 sample_idx_10_35)
  qed
  show ?thesis
    using key exact nonneg sample_idx_10_3 [of marker_tr] sample_idx_10_35 [of marker_tr] hit
    by blast
qed

theorem sample_idx_bucket_witness:
  "omap_inv (cached_images example_context)
   \<and> cacheable (placement 1 (round_double 10.3) (round_double 10.7))
   \<and> is_double (round_double 10.3) \<and> is_double (round_double 10.7)
   \<and> 0 \<le> round_double 10.3 \<and> 0 \<le> round_double 10.7
   \<and> round_double (round_double 10.3 - of_int \<lfloor>round_double 10.3\<rfloor>)
       = round_double 10.3 - of_int \<lfloor>round_double 10.3\<rfloor>
   \<and> round_double (round_double 10.7 - of_int \<lfloor>round_double 10.7\<rfloor>)
       = round_double 10.7 - of_int \<lfloor>round_double 10.7\<rfloor>
   \<and> \<lfloor>(round_double 10.7 - of_int \<lfloor>round_double 10.7\<rfloor>) * 8\<rfloor> * 8
        + \<lfloor>(round_double 10.3 - of_int \<lfloor>round_double 10.3\<rfloor>) * 8\<rfloor> = (42::int)
   \<and> sample_idx (placement 1 (round_double 10.3) (round_double 10.7)) = 42
   \<and> sample_idx (placement 1 (round_double 10.35) (round_double 10.72)) = 42
   \<and> cached_images
        (render_marker painting example_marker 7 [example_attr] example_params
           (placement 1 (round_double 10.35) (round_double 10.72))
           (render_marker painting example_marker 7 [example_attr] example_params
              (placement 1 (round_double 10.3) (round_double 10.7)) example_context))
      = cached_images
          (render_marker painting example_marker 7 [example_attr] example_params
             (placement 1 (round_double 10.3) (round_double 10.7)) example_context)"
proof -
  let ?p = "placement 1 (round_double 10.3) (round_double 10.7)"
  have inv: "omap_inv (cached_images example_context)"
    by (simp add: omap_inv_def omap_keys_def)
  have c: "cacheable ?p"
    by (simp add: cacheable_def)
  have d: "is_double (round_double 10.3)" "is_double (round_double 10.7)"
    by (simp_all add: is_double_def rd_evals rne_def Let_def)
  have nn: "0 \<le> round_double 10.3" "0 \<le> round_double 10.7"
    by (simp_all add: round_double_nonneg)
  have ex: "round_double (round_double 10.3 - of_int \<lfloor>round_double 10.3\<rfloor>)
              = round_double 10.3 - of_int \<lfloor>round_double 10.3\<rfloor>"
    "round_double (round_double 10.7 - of_int \<lfloor>round_double 10.7\<rfloor>)
              = round_double 10.7 - of_int \<lfloor>round_double 10.7\<rfloor>"
    by (simp_all add: rd_evals rne_def Let_def)
  note inst = sample_idx_bucket [of example_marker example_attr ?p example_context painting 7
      example_params]
  have formula: "sample_idx ?p =
        \<lfloor>(ty ?p - of_int \<lfloor>ty ?p\<rfloor>) * 8\<rfloor> * 8 + \<lfloor>(tx ?p - of_int \<lfloor>tx ?p\<rfloor>) * 8\<rfloor>"
    using inst ex by simp
  have formula_nonneg: "sample_idx ?p =
        \<lfloor>(ty ?p - of_int \<lfloor>ty ?p\<rfloor>) * 8\<rfloor> * 8 + \<lfloor>(tx ?p - of_int \<lfloor>tx ?p\<rfloor>) * 8\<rfloor>"
    using inst d nn by simp
  have i1: "sample_idx ?p = 42"
    using inst by simp
  have i2: "sample_idx (placement 1 (round_double 10.35) (round_double 10.72)) = 42"
    using inst by simp
  have f42: "\<lfloor>(round_double 10.7 - of_int \<lfloor>round_double 10.7\<rfloor>) * 8\<rfloor> * 8
        + \<lfloor>(round_double 10.3 - of_int \<lfloor>round_double 10.3\<rfloor>) * 8\<rfloor> = (42::int)"
    using formula i1 by simp
  have "\<exists>imgs. render_marker painting example_marker 7 [example_attr] example_params
               (placement 1 (round_double 10.35) (round_double 10.72))
               (render_marker painting example_marker 7 [example_attr] example_params ?p
                  example_context) =
              blit painting (snd imgs)
                (blit_transform example_marker example_attr
                   (placement 1 (round_double 10.35) (round_double 10.72)))
                example_params
                (blit painting (fst imgs)
                   (blit_transform example_marker example_attr
                      (placement 1 (round_double 10.35) (round_double 10.72)))
                   example_params
                   (render_marker painting example_marker 7 [example_attr] example_params ?p
                      example_context))"
    using inst inv c by auto
  then obtain imgs where eq: "render_marker painting example_marker 7 [example_attr] example_params
               (placement 1 (round_double 10.35) (round_double 10.72))
               (render_marker painting example_marker 7 [example_attr] example_params ?p
                  example_context) =
              blit painting (snd imgs)
                (blit_transform example_marker example_attr
                   (placement 1 (round_double 10.35) (round_double 10.72)))
                example_params
                (blit painting (fst imgs)
                   (blit_transform example_marker example_attr
                      (placement 1 (round_double 10.35) (round_double 10.72)))
                   example_params
                   (render_marker painting example_marker 7 [example_attr] example_params ?p
                      example_context))" ..
  have same: "cached_images
        (render_marker painting example_marker 7 [example_attr] example_params
           (placement 1 (round_double 10.35) (round_double 10.72))
           (render_marker painting example_marker 7 [example_attr] example_params ?p
              example_context))
      = cached_images
          (render_marker painting example_marker 7 [example_attr] example_params ?p
             example_context)"
    by (simp only: eq cached_images_blit)
  show ?thesis
    using inv c d nn ex f42 i1 i2 same by blast
qed

section \<open>The transform of the blit\<close>

lemma blit_transform_eq:
  "blit_transform src a marker_tr =
     marker_tr\<lparr>tx := round_double (tx marker_tr + round_double (x0 src a - dx marker_tr)),
               ty := round_double (ty marker_tr + round_double (y0 src a - dy marker_tr))\<rparr>"
  by (simp add: blit_transform_def translate_def)

text \<open>
  C4, as the claim states it: the images are blitted with the original translation minus the
  quantization remainder. The code does otherwise. For the marker with bounding box
  \<open>(0, 0, 10, 10)\<close>, a fill-only attribute record and the placement at \<open>(10.3, 10.7)\<close> (the
  doubles nearest to these numbers), the fractional offset along x falls in bucket 2, whose
  representative is \<open>2 / 8\<close>: the claimed translation along x is the original one minus
  the offset beyond \<open>0.25\<close>, which is \<open>10.25\<close>, and the code blits at 10.
\<close>

theorem blit_transform_not_spec:
  "tx (blit_transform example_marker example_attr
         (placement 1 (round_double 10.3) (round_double 10.7))) = 10
   \<and> tx (spec_blit_transform (placement 1 (round_double 10.3) (round_double 10.7))) = 10.25
   \<and> blit_transform example_marker example_attr
         (placement 1 (round_double 10.3) (round_double 10.7))
       \<noteq> spec_blit_transform (placement 1 (round_double 10.3) (round_double 10.7))"
proof -
  let ?p = "placement 1 (round_double 10.3) (round_double 10.7)"
  have code: "tx (blit_transform example_marker example_attr ?p) = 10"
    by (simp add: blit_transform_eq x0_def dx_def margin_def rd_evals rne_def Let_def)
  have spec: "tx (spec_blit_transform ?p) = 10.25"
    by (simp add: spec_blit_transform_def quantization_remainder_def dx_def sample_x_def
        sampling_rate_def rd_evals rne_def Let_def)
  have "tx (blit_transform example_marker example_attr ?p) \<noteq> tx (spec_blit_transform ?p)"
    by (simp only: code spec) simp
  then have "blit_transform example_marker example_attr ?p \<noteq> spec_blit_transform ?p"
    by metis
  then show ?thesis
    using code spec by blast
qed

text \<open>
  C4, amended. For every cacheable placement, on a hit and on a miss alike, the fill image
  and then the stroke image, each if present, are blitted by \<^verbatim>\<open>render_raster_marker\<close>
  into the destination with the placement transform translated by \<open>(x0 - dx, y0 - dy)\<close>:
  scale and shear are those of the placement and the translation is
  \<open>(tx + (x0 - dx), ty + (y0 - dy))\<close> in double arithmetic, \<open>(dx, dy)\<close> being the fractional
  parts of the translation and \<open>(x0, y0)\<close> the origin of the canvas, the floor of the minimum
  of the bounding box less the margin. Where the differences and the sum are exact, that is
  the whole pixel \<open>floor tx + x0\<close>, \<open>floor ty + y0\<close>.
\<close>

theorem blit_transform_translated:
  assumes "length attrs = 1" and "cacheable marker_tr"
  shows "blit_transform src (attrs ! 0) marker_tr =
           marker_tr\<lparr>tx := round_double (tx marker_tr
                                + round_double (x0 src (attrs ! 0) - dx marker_tr)),
                     ty := round_double (ty marker_tr
                                + round_double (y0 src (attrs ! 0) - dy marker_tr))\<rparr>
       \<and> render_marker R src path attrs params marker_tr st =
           blit R (snd (fst (lookup_or_render R src path (attrs ! 0) params marker_tr st)))
             (blit_transform src (attrs ! 0) marker_tr) params
             (blit R (fst (fst (lookup_or_render R src path (attrs ! 0) params marker_tr st)))
                (blit_transform src (attrs ! 0) marker_tr) params
                (snd (lookup_or_render R src path (attrs ! 0) params marker_tr st)))
       \<and> (\<forall>img s. blit R (Some img) (blit_transform src (attrs ! 0) marker_tr) params s =
              s\<lparr>buf := render_raster_marker R (buf s) (ras_clip_box s) img
                          (blit_transform src (attrs ! 0) marker_tr)
                          (opacity params) (scale_factor params) (snap_to_pixels params)\<rparr>)
       \<and> (\<forall>s. blit R None (blit_transform src (attrs ! 0) marker_tr) params s = s)
       \<and> (\<forall>fill_img stroke_img.
             omap_find (image_cache_key src (attrs ! 0) marker_tr) (cached_images st)
               = Some (Some fill_img, Some stroke_img) \<longrightarrow>
             render_marker R src path attrs params marker_tr st =
               st\<lparr>buf := render_raster_marker R
                           (render_raster_marker R (buf st) (ras_clip_box st) fill_img
                              (blit_transform src (attrs ! 0) marker_tr)
                              (opacity params) (scale_factor params) (snap_to_pixels params))
                           (ras_clip_box st) stroke_img
                           (blit_transform src (attrs ! 0) marker_tr)
                           (opacity params) (scale_factor params) (snap_to_pixels params)\<rparr>)
       \<and> (dx marker_tr = tx marker_tr - of_int \<lfloor>tx marker_tr\<rfloor>
            \<and> round_double (x0 src (attrs ! 0) - dx marker_tr) = x0 src (attrs ! 0) - dx marker_tr
            \<and> is_double (of_int \<lfloor>tx marker_tr\<rfloor> + x0 src (attrs ! 0)) \<longrightarrow>
          tx (blit_transform src (attrs ! 0) marker_tr) =
            of_int \<lfloor>tx marker_tr\<rfloor> + x0 src (attrs ! 0))
       \<and> (dy marker_tr = ty marker_tr - of_int \<lfloor>ty marker_tr\<rfloor>
            \<and> round_double (y0 src (attrs ! 0) - dy marker_tr) = y0 src (attrs ! 0) - dy marker_tr
            \<and> is_double (of_int \<lfloor>ty marker_tr\<rfloor> + y0 src (attrs ! 0)) \<longrightarrow>
          ty (blit_transform src (attrs ! 0) marker_tr) =
            of_int \<lfloor>ty marker_tr\<rfloor> + y0 src (attrs ! 0))"
proof -
  let ?a = "attrs ! 0"
  let ?T = "blit_transform src ?a marker_tr"
  have calls: "\<forall>img s. blit R (Some img) ?T params s =
              s\<lparr>buf := render_raster_marker R (buf s) (ras_clip_box s) img ?T
                          (opacity params) (scale_factor params) (snap_to_pixels params)\<rparr>"
    by (simp add: blit_def)
  have absent: "\<forall>s. blit R None ?T params s = s"
    by (simp add: blit_def)
  have hit: "render_marker R src path attrs params marker_tr st =
               st\<lparr>buf := render_raster_marker R
                           (render_raster_marker R (buf st) (ras_clip_box st) fill_img ?T
                              (opacity params) (scale_factor params) (snap_to_pixels params))
                           (ras_clip_box st) stroke_img ?T
                           (opacity params) (scale_factor params) (snap_to_pixels params)\<rparr>"
    if "omap_find (image_cache_key src ?a marker_tr) (cached_images st)
               = Some (Some fill_img, Some stroke_img)" for fill_img stroke_img
    by (simp add: render_marker_cached_path [OF assms] lookup_or_render_hit [OF that] blit_def)
  have whole_x: "tx ?T = of_int \<lfloor>tx marker_tr\<rfloor> + x0 src ?a"
    if "dx marker_tr = tx marker_tr - of_int \<lfloor>tx marker_tr\<rfloor>
            \<and> round_double (x0 src ?a - dx marker_tr) = x0 src ?a - dx marker_tr
            \<and> is_double (of_int \<lfloor>tx marker_tr\<rfloor> + x0 src ?a)"
  proof -
    have e2: "round_double (x0 src ?a - dx marker_tr) = x0 src ?a - dx marker_tr"
      and e3: "round_double (of_int \<lfloor>tx marker_tr\<rfloor> + x0 src ?a) =
                 of_int \<lfloor>tx marker_tr\<rfloor> + x0 src ?a"
      using that unfolding is_double_def by blast+
    have sum: "tx marker_tr + (x0 src ?a - dx marker_tr) = of_int \<lfloor>tx marker_tr\<rfloor> + x0 src ?a"
      using that by simp
    have "tx ?T = round_double (tx marker_tr + round_double (x0 src ?a - dx marker_tr))"
      by (simp add: blit_transform_eq)
    also have "\<dots> = round_double (of_int \<lfloor>tx marker_tr\<rfloor> + x0 src ?a)"
      by (simp only: e2 sum)
    finally show ?thesis
      by (simp only: e3)
  qed
  have whole_y: "ty ?T = of_int \<lfloor>ty marker_tr\<rfloor> + y0 src ?a"
    if "dy marker_tr = ty marker_tr - of_int \<lfloor>ty marker_tr\<rfloor>
            \<and> round_double (y0 src ?a - dy marker_tr) = y0 src ?a - dy marker_tr
            \<and> is_double (of_int \<lfloor>ty marker_tr\<rfloor> + y0 src ?a)"
  proof -
    have e2: "round_double (y0 src ?a - dy marker_tr) = y0 src ?a - dy marker_tr"
      and e3: "round_double (of_int \<lfloor>ty marker_tr\<rfloor> + y0 src ?a) =
                 of_int \<lfloor>ty marker_tr\<rfloor> + y0 src ?a"
      using that unfolding is_double_def by blast+
    have sum: "ty marker_tr + (y0 src ?a - dy marker_tr) = of_int \<lfloor>ty marker_tr\<rfloor> + y0 src ?a"
      using that by simp
    have "ty ?T = round_double (ty marker_tr + round_double (y0 src ?a - dy marker_tr))"
      by (simp add: blit_transform_eq)
    also have "\<dots> = round_double (of_int \<lfloor>ty marker_tr\<rfloor> + y0 src ?a)"
      by (simp only: e2 sum)
    finally show ?thesis
      by (simp only: e3)
  qed
  show ?thesis
    using blit_transform_eq [of src ?a marker_tr]
      render_marker_cached_path [OF assms, of R src path params st] calls absent hit
      whole_x whole_y
    by blast
qed

theorem blit_transform_translated_witness:
  "length [stroked_attr] = 1
   \<and> cacheable (placement 1 (round_double 1.1) (round_double 10.3))
   \<and> x0 centred_marker stroked_attr = - 7
   \<and> dx (placement 1 (round_double 1.1) (round_double 10.3)) = 225179981368525 / 2251799813685248
   \<and> blit_transform centred_marker stroked_attr (placement 1 (round_double 1.1) (round_double 10.3))
       = placement 1 (- 6) 3
   \<and> tx (blit_transform centred_marker example_attr
            (placement 1 (round_double 1.1) (round_double 10.3)))
       = - (9007199254740991 / 2251799813685248)
   \<and> cacheable (placement 1 (3 / 2) (41 / 4))
   \<and> dx (placement 1 (3 / 2) (41 / 4)) = 3 / 2 - of_int \<lfloor>3 / 2 :: real\<rfloor>
   \<and> round_double (x0 centred_marker stroked_attr - dx (placement 1 (3 / 2) (41 / 4)))
       = x0 centred_marker stroked_attr - dx (placement 1 (3 / 2) (41 / 4))
   \<and> is_double (of_int \<lfloor>3 / 2 :: real\<rfloor> + x0 centred_marker stroked_attr)
   \<and> dy (placement 1 (3 / 2) (41 / 4)) = 41 / 4 - of_int \<lfloor>41 / 4 :: real\<rfloor>
   \<and> round_double (y0 centred_marker stroked_attr - dy (placement 1 (3 / 2) (41 / 4)))
       = y0 centred_marker stroked_attr - dy (placement 1 (3 / 2) (41 / 4))
   \<and> is_double (of_int \<lfloor>41 / 4 :: real\<rfloor> + y0 centred_marker stroked_attr)
   \<and> blit_transform centred_marker stroked_attr (placement 1 (3 / 2) (41 / 4))
       = placement 1 (- 6) 3
   \<and> omap_find (image_cache_key centred_marker stroked_attr (placement 1 (3 / 2) (41 / 4)))
        (cached_images cached_context)
       = Some (Some \<lparr>img_width = 1, img_height = 1, pixels = [255]\<rparr>,
               Some \<lparr>img_width = 1, img_height = 1, pixels = [128]\<rparr>)
   \<and> render_marker painting centred_marker 8 [stroked_attr] example_params
        (placement 1 (3 / 2) (41 / 4)) cached_context
       = cached_context\<lparr>buf := \<lparr>img_width = 2, img_height = 1, pixels = [2, 2]\<rparr>\<rparr>"
proof -
  let ?p = "placement 1 (round_double 1.1) (round_double 10.3)"
  let ?q = "placement 1 (3 / 2) (41 / 4)"
  let ?f = "\<lparr>img_width = 1, img_height = 1, pixels = [255]\<rparr>"
  let ?s = "\<lparr>img_width = 1, img_height = 1, pixels = [128]\<rparr>"
  have len: "length [stroked_attr] = 1" by simp
  have len2: "length [example_attr] = 1" by simp
  have c: "cacheable ?p" by (simp add: cacheable_def)
  have cq: "cacheable ?q" by (simp add: cacheable_def)
  have x: "x0 centred_marker stroked_attr = - 7"
    by (simp add: x0_def margin_def rd_evals rne_def Let_def)
  have y: "y0 centred_marker stroked_attr = - 7"
    by (simp add: y0_def margin_def rd_evals rne_def Let_def)
  have d: "dx ?p = 225179981368525 / 2251799813685248"
    by (simp add: dx_def rd_evals rne_def Let_def)
  have t0: "blit_transform centred_marker ([stroked_attr] ! 0) ?p =
              ?p\<lparr>tx := round_double (tx ?p + round_double (x0 centred_marker ([stroked_attr] ! 0) - dx ?p)),
                 ty := round_double (ty ?p + round_double (y0 centred_marker ([stroked_attr] ! 0) - dy ?p))\<rparr>"
    using blit_transform_translated [OF len c, of centred_marker painting 8 example_params
        example_context]
    by (rule conjunct1)
  have t: "blit_transform centred_marker stroked_attr ?p = placement 1 (- 6) 3"
    using t0 by (simp add: x0_def y0_def dx_def dy_def margin_def rd_evals rne_def Let_def)
  have u0: "blit_transform centred_marker ([example_attr] ! 0) ?p =
              ?p\<lparr>tx := round_double (tx ?p + round_double (x0 centred_marker ([example_attr] ! 0) - dx ?p)),
                 ty := round_double (ty ?p + round_double (y0 centred_marker ([example_attr] ! 0) - dy ?p))\<rparr>"
    using blit_transform_translated [OF len2 c, of centred_marker painting 8 example_params
        example_context]
    by (rule conjunct1)
  have u: "tx (blit_transform centred_marker example_attr ?p)
       = - (9007199254740991 / 2251799813685248)"
    using u0 by (simp add: x0_def y0_def dx_def dy_def margin_def rd_evals rne_def Let_def)
  have e1: "dx ?q = 3 / 2 - of_int \<lfloor>3 / 2 :: real\<rfloor>"
    by (simp add: dx_def rd_evals rne_def Let_def)
  have e2: "round_double (x0 centred_marker stroked_attr - dx ?q)
              = x0 centred_marker stroked_attr - dx ?q"
    by (simp add: x dx_def rd_evals rne_def Let_def)
  have e3: "is_double (of_int \<lfloor>3 / 2 :: real\<rfloor> + x0 centred_marker stroked_attr)"
    by (simp add: x is_double_def rd_evals rne_def Let_def)
  have f1: "dy ?q = 41 / 4 - of_int \<lfloor>41 / 4 :: real\<rfloor>"
    by (simp add: dy_def rd_evals rne_def Let_def)
  have f2: "round_double (y0 centred_marker stroked_attr - dy ?q)
              = y0 centred_marker stroked_attr - dy ?q"
    by (simp add: y dy_def rd_evals rne_def Let_def)
  have f3: "is_double (of_int \<lfloor>41 / 4 :: real\<rfloor> + y0 centred_marker stroked_attr)"
    by (simp add: y is_double_def rd_evals rne_def Let_def)
  have found: "omap_find (image_cache_key centred_marker stroked_attr ?q)
                 (cached_images cached_context) = Some (Some ?f, Some ?s)"
    by (simp add: image_cache_key_def sample_idx_eq dx_def dy_def rd_evals rne_def Let_def)
  note inst = blit_transform_translated [OF len cq, of centred_marker painting 8 example_params
      cached_context]
  note hit = inst [THEN conjunct2, THEN conjunct2, THEN conjunct2, THEN conjunct2,
      THEN conjunct1]
  note whole_x = inst [THEN conjunct2, THEN conjunct2, THEN conjunct2, THEN conjunct2,
      THEN conjunct2, THEN conjunct1]
  note whole_y = inst [THEN conjunct2, THEN conjunct2, THEN conjunct2, THEN conjunct2,
      THEN conjunct2, THEN conjunct2]
  have hx: "dx ?q = tx ?q - of_int \<lfloor>tx ?q\<rfloor>
      \<and> round_double (x0 centred_marker ([stroked_attr] ! 0) - dx ?q)
          = x0 centred_marker ([stroked_attr] ! 0) - dx ?q
      \<and> is_double (of_int \<lfloor>tx ?q\<rfloor> + x0 centred_marker ([stroked_attr] ! 0))"
    using e1 e2 e3 by simp
  have hy: "dy ?q = ty ?q - of_int \<lfloor>ty ?q\<rfloor>
      \<and> round_double (y0 centred_marker ([stroked_attr] ! 0) - dy ?q)
          = y0 centred_marker ([stroked_attr] ! 0) - dy ?q
      \<and> is_double (of_int \<lfloor>ty ?q\<rfloor> + y0 centred_marker ([stroked_attr] ! 0))"
    using f1 f2 f3 by simp
  have wx0: "tx (blit_transform centred_marker ([stroked_attr] ! 0) ?q) =
               of_int \<lfloor>tx ?q\<rfloor> + x0 centred_marker ([stroked_attr] ! 0)"
    using whole_x hx by (rule mp)
  have wy0: "ty (blit_transform centred_marker ([stroked_attr] ! 0) ?q) =
               of_int \<lfloor>ty ?q\<rfloor> + y0 centred_marker ([stroked_attr] ! 0)"
    using whole_y hy by (rule mp)
  have wx: "tx (blit_transform centred_marker stroked_attr ?q) = - 6"
    using wx0 by (simp add: x)
  have wy: "ty (blit_transform centred_marker stroked_attr ?q) = 3"
    using wy0 by (simp add: y)
  have shape: "blit_transform centred_marker stroked_attr ?q =
                 ?q\<lparr>tx := tx (blit_transform centred_marker stroked_attr ?q),
                    ty := ty (blit_transform centred_marker stroked_attr ?q)\<rparr>"
    by (simp add: blit_transform_def translate_def)
  have w: "blit_transform centred_marker stroked_attr ?q = placement 1 (- 6) 3"
    using shape by (simp add: wx wy)
  have found0: "omap_find (image_cache_key centred_marker ([stroked_attr] ! 0) ?q)
                 (cached_images cached_context) = Some (Some ?f, Some ?s)"
    using found by simp
  have r0: "render_marker painting centred_marker 8 [stroked_attr] example_params ?q
              cached_context =
            cached_context\<lparr>buf := render_raster_marker painting
                (render_raster_marker painting (buf cached_context) (ras_clip_box cached_context)
                   ?f (blit_transform centred_marker ([stroked_attr] ! 0) ?q)
                   (opacity example_params) (scale_factor example_params)
                   (snap_to_pixels example_params))
                (ras_clip_box cached_context) ?s
                (blit_transform centred_marker ([stroked_attr] ! 0) ?q)
                (opacity example_params) (scale_factor example_params)
                (snap_to_pixels example_params)\<rparr>"
    using hit found0 by blast
  have r: "render_marker painting centred_marker 8 [stroked_attr] example_params ?q
              cached_context =
            cached_context\<lparr>buf := \<lparr>img_width = 2, img_height = 1, pixels = [2, 2]\<rparr>\<rparr>"
    using r0 by simp
  show ?thesis
    using len c x d t u cq e1 e2 e3 f1 f2 f3 w found r by blast
qed

section \<open>Facts about the rendering of a patch\<close>

lemma all_zero_make_image: "all_zero (make_image w h)"
  by (simp add: all_zero_def make_image_def list_all_iff)

lemma render_patch_not_zero:
  "render_patch R src path a attrs_copy params marker_tr = Some img \<Longrightarrow> \<not> all_zero img"
  by (auto simp: render_patch_def Let_def split: if_splits)

lemma create_fill_image_not_zero:
  "create_fill_image R src path a params marker_tr = Some img \<Longrightarrow> \<not> all_zero img"
  by (auto simp: create_fill_image_def split: if_splits dest: render_patch_not_zero)

lemma create_stroke_image_not_zero:
  "create_stroke_image R src path a params marker_tr = Some img \<Longrightarrow> \<not> all_zero img"
  by (auto simp: create_stroke_image_def split: if_splits dest: render_patch_not_zero)

lemma create_fill_image_zero:
  "all_zero (render_vector_marker R path
       [a\<lparr>stroke_flag := False, stroke_gradient_type := NO_GRADIENT\<rparr>]
       (0, 0, canvas_width src a, canvas_height src a)
       (make_image (canvas_width src a) (canvas_height src a))
       (bounding_box src) (local_transform src a marker_tr) 1 (snap_to_pixels params)) \<Longrightarrow>
   create_fill_image R src path a params marker_tr = None"
  by (simp add: create_fill_image_def render_patch_def Let_def)

lemma create_stroke_image_zero:
  "all_zero (render_vector_marker R path
       [a\<lparr>fill_flag := False, fill_gradient_type := NO_GRADIENT\<rparr>]
       (0, 0, canvas_width src a, canvas_height src a)
       (make_image (canvas_width src a) (canvas_height src a))
       (bounding_box src) (local_transform src a marker_tr) 1 (snap_to_pixels params)) \<Longrightarrow>
   create_stroke_image R src path a params marker_tr = None"
  by (simp add: create_stroke_image_def render_patch_def Let_def)

section \<open>Transparent patches\<close>

text \<open>
  C8. On a miss of the rendered-image cache the entry that is stored never holds an image
  whose pixels are all zero: a fill or stroke image that came out all zero is stored as
  absent. Blitting an absent image leaves the state, and so the destination buffer, as it
  is; when both images are absent the destination is the same after the call as before.
\<close>

theorem transparent_patch_absent:
  assumes inv: "omap_inv (cached_images st)"
    and len: "length attrs = 1" and c: "cacheable marker_tr"
    and miss: "omap_find (image_cache_key src (attrs ! 0) marker_tr) (cached_images st) = None"
  shows "\<exists>fill_img stroke_img.
           omap_find (image_cache_key src (attrs ! 0) marker_tr)
             (cached_images (render_marker R src path attrs params marker_tr st))
             = Some (fill_img, stroke_img)
         \<and> (\<forall>img. fill_img = Some img \<longrightarrow> \<not> all_zero img)
         \<and> (\<forall>img. stroke_img = Some img \<longrightarrow> \<not> all_zero img)
         \<and> (all_zero (render_vector_marker R path
                 [(attrs ! 0)\<lparr>stroke_flag := False, stroke_gradient_type := NO_GRADIENT\<rparr>]
                 (0, 0, canvas_width src (attrs ! 0), canvas_height src (attrs ! 0))
                 (make_image (canvas_width src (attrs ! 0)) (canvas_height src (attrs ! 0)))
                 (bounding_box src) (local_transform src (attrs ! 0) marker_tr) 1
                 (snap_to_pixels params)) \<longrightarrow> fill_img = None)
         \<and> (all_zero (render_vector_marker R path
                 [(attrs ! 0)\<lparr>fill_flag := False, fill_gradient_type := NO_GRADIENT\<rparr>]
                 (0, 0, canvas_width src (attrs ! 0), canvas_height src (attrs ! 0))
                 (make_image (canvas_width src (attrs ! 0)) (canvas_height src (attrs ! 0)))
                 (bounding_box src) (local_transform src (attrs ! 0) marker_tr) 1
                 (snap_to_pixels params)) \<longrightarrow> stroke_img = None)
         \<and> (fill_img = None \<and> stroke_img = None \<longrightarrow>
              buf (render_marker R src path attrs params marker_tr st) = buf st)
         \<and> (\<forall>t p s. blit R None t p s = s)"
proof -
  let ?a = "attrs ! 0"
  let ?f = "create_fill_image R src path ?a params marker_tr"
  let ?s = "create_stroke_image R src path ?a params marker_tr"
  let ?st1 = "snd (lookup_or_render R src path ?a params marker_tr st)"
  have lr: "fst (lookup_or_render R src path ?a params marker_tr st) = (?f, ?s)"
    and buf1: "buf ?st1 = buf st"
    by (simp_all add: lookup_or_render_miss [OF miss])
  have rm: "render_marker R src path attrs params marker_tr st =
              blit R ?s (blit_transform src ?a marker_tr) params
                (blit R ?f (blit_transform src ?a marker_tr) params ?st1)"
    by (simp add: render_marker_cached_path [OF len c] lr)
  have stored: "omap_find (image_cache_key src ?a marker_tr)
             (cached_images (render_marker R src path attrs params marker_tr st)) = Some (?f, ?s)"
    using lookup_or_render_cached [OF inv, of src ?a marker_tr R path params]
    by (simp add: rm lr)
  have nz_f: "\<forall>img. ?f = Some img \<longrightarrow> \<not> all_zero img"
    using create_fill_image_not_zero by blast
  have nz_s: "\<forall>img. ?s = Some img \<longrightarrow> \<not> all_zero img"
    using create_stroke_image_not_zero by blast
  have z_f: "all_zero (render_vector_marker R path
                 [?a\<lparr>stroke_flag := False, stroke_gradient_type := NO_GRADIENT\<rparr>]
                 (0, 0, canvas_width src ?a, canvas_height src ?a)
                 (make_image (canvas_width src ?a) (canvas_height src ?a))
                 (bounding_box src) (local_transform src ?a marker_tr) 1
                 (snap_to_pixels params)) \<longrightarrow> ?f = None"
    using create_fill_image_zero by blast
  have z_s: "all_zero (render_vector_marker R path
                 [?a\<lparr>fill_flag := False, fill_gradient_type := NO_GRADIENT\<rparr>]
                 (0, 0, canvas_width src ?a, canvas_height src ?a)
                 (make_image (canvas_width src ?a) (canvas_height src ?a))
                 (bounding_box src) (local_transform src ?a marker_tr) 1
                 (snap_to_pixels params)) \<longrightarrow> ?s = None"
    using create_stroke_image_zero by blast
  have unchanged: "?f = None \<and> ?s = None \<longrightarrow>
              buf (render_marker R src path attrs params marker_tr st) = buf st"
    by (simp add: rm buf1)
  have noop: "\<forall>t p s. blit R None t p s = s"
    by simp
  show ?thesis
    using stored nz_f nz_s z_f z_s unchanged noop by blast
qed

theorem transparent_patch_absent_witness:
  "omap_inv (cached_images example_context) \<and> length [example_attr] = 1
   \<and> cacheable (placement 1 10.3 10.7)
   \<and> omap_find (image_cache_key example_marker ([example_attr] ! 0) (placement 1 10.3 10.7))
        (cached_images example_context) = None
   \<and> omap_find (image_cache_key example_marker ([example_attr] ! 0) (placement 1 10.3 10.7))
        (cached_images
           (render_marker transparent example_marker 7 [example_attr] example_params
              (placement 1 10.3 10.7) example_context)) = Some (None, None)
   \<and> buf (render_marker transparent example_marker 7 [example_attr] example_params
             (placement 1 10.3 10.7) example_context) = buf example_context"
proof -
  have inv: "omap_inv (cached_images example_context)"
    by (simp add: omap_inv_def omap_keys_def)
  have len: "length [example_attr] = 1" by simp
  have c: "cacheable (placement 1 10.3 10.7)" by (simp add: cacheable_def)
  have miss: "omap_find (image_cache_key example_marker ([example_attr] ! 0) (placement 1 10.3 10.7))
        (cached_images example_context) = None"
    by simp
  obtain fill_img stroke_img where
    stored: "omap_find (image_cache_key example_marker ([example_attr] ! 0) (placement 1 10.3 10.7))
        (cached_images
           (render_marker transparent example_marker 7 [example_attr] example_params
              (placement 1 10.3 10.7) example_context)) = Some (fill_img, stroke_img)"
    and nz: "\<forall>img. stroke_img = Some img \<longrightarrow> \<not> all_zero img"
    and zf: "all_zero (render_vector_marker transparent 7
                 [([example_attr] ! 0)\<lparr>stroke_flag := False, stroke_gradient_type := NO_GRADIENT\<rparr>]
                 (0, 0, canvas_width example_marker ([example_attr] ! 0),
                  canvas_height example_marker ([example_attr] ! 0))
                 (make_image (canvas_width example_marker ([example_attr] ! 0))
                    (canvas_height example_marker ([example_attr] ! 0)))
                 (bounding_box example_marker)
                 (local_transform example_marker ([example_attr] ! 0) (placement 1 10.3 10.7)) 1
                 (snap_to_pixels example_params)) \<longrightarrow> fill_img = None"
    and zs: "all_zero (render_vector_marker transparent 7
                 [([example_attr] ! 0)\<lparr>fill_flag := False, fill_gradient_type := NO_GRADIENT\<rparr>]
                 (0, 0, canvas_width example_marker ([example_attr] ! 0),
                  canvas_height example_marker ([example_attr] ! 0))
                 (make_image (canvas_width example_marker ([example_attr] ! 0))
                    (canvas_height example_marker ([example_attr] ! 0)))
                 (bounding_box example_marker)
                 (local_transform example_marker ([example_attr] ! 0) (placement 1 10.3 10.7)) 1
                 (snap_to_pixels example_params)) \<longrightarrow> stroke_img = None"
    and un: "fill_img = None \<and> stroke_img = None \<longrightarrow>
              buf (render_marker transparent example_marker 7 [example_attr] example_params
                     (placement 1 10.3 10.7) example_context) = buf example_context"
    using transparent_patch_absent [OF inv len c miss, of transparent 7 example_params]
    by blast
  have f: "fill_img = None"
    using zf by (simp add: all_zero_make_image)
  have s: "stroke_img = None"
    using zs by (simp add: all_zero_make_image)
  show ?thesis
    using inv len c miss stored un f s by blast
qed

section \<open>Facts about the attribute cache\<close>

lemma find_cached_attributes_Some_iff:
  "find_cached_attributes symbolizer cache = Some attrs \<longleftrightarrow>
     omap_find (sym_addr symbolizer) cache = Some (attrs, properties symbolizer)"
  by (auto simp: find_cached_attributes_def split: option.splits)

lemma resolve_attributes_hit:
  "find_cached_attributes symbolizer (cached_attributes st) = Some attrs \<Longrightarrow>
     resolve_attributes C stock_marker symbolizer feature st = (attrs, st)"
  by (simp add: resolve_attributes_def)

lemma resolve_attributes_miss:
  "find_cached_attributes symbolizer (cached_attributes st) = None \<Longrightarrow>
     resolve_attributes C stock_marker symbolizer feature st =
       (get_marker_attributes C stock_marker symbolizer feature,
        if attributes_cacheable symbolizer
        then st\<lparr>cached_attributes :=
                  cache_assign attributes_cache_size (sym_addr symbolizer)
                    (get_marker_attributes C stock_marker symbolizer feature, properties symbolizer)
                    (cached_attributes st)\<rparr>
        else st)"
  by (simp add: resolve_attributes_def Let_def)

lemma omap_find_cache_assign_same:
  "omap_inv m \<Longrightarrow> omap_find k (cache_assign bound k v m) = Some v"
  unfolding cache_assign_def by (rule omap_find_assign_same [OF omap_inv_evict])

lemma attributes_cacheable_iff:
  "attributes_cacheable symbolizer \<longleftrightarrow>
     (\<forall>key_prop \<in> set (properties symbolizer). \<not> is_expression (snd key_prop))"
  by (simp add: attributes_cacheable_def list_all_iff)

section \<open>Hits of the attribute cache\<close>

text \<open>
  C5. The lookup in the attribute cache returns a cached attribute set only when the property
  map stored with it equals the current property map of the symbolizer. When the stored map
  differs, the lookup misses and the attributes are resolved afresh. In particular, after an
  attribute set was cached for a symbolizer, the same symbolizer with a changed property map
  misses, while with the unchanged map it hits.
\<close>

theorem attribute_cache_hit_needs_equal_properties:
  "(find_cached_attributes symbolizer (cached_attributes st) = Some attrs \<longrightarrow>
      omap_find (sym_addr symbolizer) (cached_attributes st) = Some (attrs, properties symbolizer))
   \<and> (omap_find (sym_addr symbolizer) (cached_attributes st) = Some (attrs', props')
        \<and> props' \<noteq> properties symbolizer \<longrightarrow>
      find_cached_attributes symbolizer (cached_attributes st) = None
      \<and> fst (resolve_attributes C stock_marker symbolizer feature st) =
          get_marker_attributes C stock_marker symbolizer feature)
   \<and> (omap_inv (cached_attributes st)
        \<and> find_cached_attributes symbolizer (cached_attributes st) = None
        \<and> attributes_cacheable symbolizer
        \<and> sym_addr symbolizer' = sym_addr symbolizer
        \<and> properties symbolizer' \<noteq> properties symbolizer \<longrightarrow>
      find_cached_attributes symbolizer
        (cached_attributes (snd (resolve_attributes C stock_marker symbolizer feature st))) =
        Some (get_marker_attributes C stock_marker symbolizer feature)
      \<and> find_cached_attributes symbolizer'
          (cached_attributes (snd (resolve_attributes C stock_marker symbolizer feature st))) = None
      \<and> fst (resolve_attributes C stock_marker symbolizer' feature
               (snd (resolve_attributes C stock_marker symbolizer feature st))) =
          get_marker_attributes C stock_marker symbolizer' feature)"
proof -
  have hit: "find_cached_attributes symbolizer (cached_attributes st) = Some attrs \<longrightarrow>
      omap_find (sym_addr symbolizer) (cached_attributes st) = Some (attrs, properties symbolizer)"
    by (simp add: find_cached_attributes_Some_iff)
  have changed: "find_cached_attributes symbolizer (cached_attributes st) = None
      \<and> fst (resolve_attributes C stock_marker symbolizer feature st) =
          get_marker_attributes C stock_marker symbolizer feature"
    if "omap_find (sym_addr symbolizer) (cached_attributes st) = Some (attrs', props')"
      and "props' \<noteq> properties symbolizer"
  proof -
    have none: "find_cached_attributes symbolizer (cached_attributes st) = None"
      using that by (simp add: find_cached_attributes_def)
    show ?thesis
      by (simp add: none resolve_attributes_miss [OF none])
  qed
  have snapshot: "find_cached_attributes symbolizer
        (cached_attributes (snd (resolve_attributes C stock_marker symbolizer feature st))) =
        Some (get_marker_attributes C stock_marker symbolizer feature)
      \<and> find_cached_attributes symbolizer'
          (cached_attributes (snd (resolve_attributes C stock_marker symbolizer feature st))) = None
      \<and> fst (resolve_attributes C stock_marker symbolizer' feature
               (snd (resolve_attributes C stock_marker symbolizer feature st))) =
          get_marker_attributes C stock_marker symbolizer' feature"
    if inv: "omap_inv (cached_attributes st)"
      and miss: "find_cached_attributes symbolizer (cached_attributes st) = None"
      and lit: "attributes_cacheable symbolizer"
      and same: "sym_addr symbolizer' = sym_addr symbolizer"
      and diff: "properties symbolizer' \<noteq> properties symbolizer"
  proof -
    let ?st1 = "snd (resolve_attributes C stock_marker symbolizer feature st)"
    have entry: "omap_find (sym_addr symbolizer) (cached_attributes ?st1) =
          Some (get_marker_attributes C stock_marker symbolizer feature, properties symbolizer)"
      by (simp add: resolve_attributes_miss [OF miss] lit omap_find_cache_assign_same [OF inv])
    have again: "find_cached_attributes symbolizer (cached_attributes ?st1) =
        Some (get_marker_attributes C stock_marker symbolizer feature)"
      using entry by (simp add: find_cached_attributes_Some_iff)
    have none: "find_cached_attributes symbolizer' (cached_attributes ?st1) = None"
      using entry diff by (simp add: find_cached_attributes_def same)
    show ?thesis
      by (simp add: again none resolve_attributes_miss [OF none])
  qed
  show ?thesis
    using hit changed snapshot by blast
qed

theorem attribute_cache_hit_needs_equal_properties_witness:
  "omap_find 5 (cached_attributes example_state)
     = Some ([example_attr], [(keys_file, value_string ''a.svg'')])
   \<and> find_cached_attributes \<lparr>sym_addr = 5, properties = [(keys_file, value_string ''a.svg'')]\<rparr>
        (cached_attributes example_state) = Some [example_attr]
   \<and> find_cached_attributes \<lparr>sym_addr = 5, properties = [(keys_file, value_string ''b.svg'')]\<rparr>
        (cached_attributes example_state) = None
   \<and> fst (resolve_attributes example_collaborators (example_marker\<lparr>attributes := []\<rparr>)
            \<lparr>sym_addr = 5, properties = [(keys_file, value_string ''b.svg'')]\<rparr> 0 example_state) = []"
proof -
  have stored: "omap_find (sym_addr \<lparr>sym_addr = 5, properties = [(keys_file, value_string ''b.svg'')]\<rparr>)
      (cached_attributes example_state)
     = Some ([example_attr], [(keys_file, value_string ''a.svg'')])"
    by simp
  have diff: "[(keys_file, value_string ''a.svg'')]
      \<noteq> properties \<lparr>sym_addr = 5, properties = [(keys_file, value_string ''b.svg'')]\<rparr>"
    by simp
  note inst = attribute_cache_hit_needs_equal_properties
      [of "\<lparr>sym_addr = 5, properties = [(keys_file, value_string ''b.svg'')]\<rparr>" example_state
          "[example_attr]" "[example_attr]" "[(keys_file, value_string ''a.svg'')]"
          example_collaborators "example_marker\<lparr>attributes := []\<rparr>" 0]
  have miss: "find_cached_attributes \<lparr>sym_addr = 5, properties = [(keys_file, value_string ''b.svg'')]\<rparr>
        (cached_attributes example_state) = None"
    and fresh: "fst (resolve_attributes example_collaborators (example_marker\<lparr>attributes := []\<rparr>)
            \<lparr>sym_addr = 5, properties = [(keys_file, value_string ''b.svg'')]\<rparr> 0 example_state)
          = get_marker_attributes example_collaborators (example_marker\<lparr>attributes := []\<rparr>)
              \<lparr>sym_addr = 5, properties = [(keys_file, value_string ''b.svg'')]\<rparr> 0"
    using inst stored diff by blast+
  have hit: "find_cached_attributes \<lparr>sym_addr = 5, properties = [(keys_file, value_string ''a.svg'')]\<rparr>
        (cached_attributes example_state) = Some [example_attr]"
    by (simp add: find_cached_attributes_def)
  have val: "get_marker_attributes example_collaborators (example_marker\<lparr>attributes := []\<rparr>)
              \<lparr>sym_addr = 5, properties = [(keys_file, value_string ''b.svg'')]\<rparr> 0 = []"
    by (simp add: get_marker_attributes_def)
  show ?thesis
    using stored miss fresh hit val by simp
qed

section \<open>Insertions into the attribute cache\<close>

text \<open>
  C6. On a miss of the attribute cache the freshly resolved attribute set is the result for
  this feature in every case. It is stored under the address of the symbolizer, with the
  current property map, exactly when no property of the symbolizer is an expression; when
  some property is an expression, the state is left as it is, and no entry for this
  resolution is in the cache.
\<close>

theorem attributes_cached_iff_no_expression:
  assumes inv: "omap_inv (cached_attributes st)"
    and miss: "find_cached_attributes symbolizer (cached_attributes st) = None"
  shows "fst (resolve_attributes C stock_marker symbolizer feature st) =
           get_marker_attributes C stock_marker symbolizer feature
       \<and> ((\<forall>key_prop \<in> set (properties symbolizer). \<not> is_expression (snd key_prop)) \<longrightarrow>
            omap_find (sym_addr symbolizer)
              (cached_attributes (snd (resolve_attributes C stock_marker symbolizer feature st))) =
              Some (get_marker_attributes C stock_marker symbolizer feature, properties symbolizer))
       \<and> ((\<exists>key_prop \<in> set (properties symbolizer). is_expression (snd key_prop)) \<longrightarrow>
            snd (resolve_attributes C stock_marker symbolizer feature st) = st
            \<and> omap_find (sym_addr symbolizer)
                (cached_attributes (snd (resolve_attributes C stock_marker symbolizer feature st))) \<noteq>
                Some (get_marker_attributes C stock_marker symbolizer feature, properties symbolizer))"
proof -
  have fresh: "fst (resolve_attributes C stock_marker symbolizer feature st) =
           get_marker_attributes C stock_marker symbolizer feature"
    by (simp add: resolve_attributes_miss [OF miss])
  have lit: "omap_find (sym_addr symbolizer)
              (cached_attributes (snd (resolve_attributes C stock_marker symbolizer feature st))) =
              Some (get_marker_attributes C stock_marker symbolizer feature, properties symbolizer)"
    if "\<forall>key_prop \<in> set (properties symbolizer). \<not> is_expression (snd key_prop)"
  proof -
    have "attributes_cacheable symbolizer"
      using that by (simp add: attributes_cacheable_iff)
    then show ?thesis
      by (simp add: resolve_attributes_miss [OF miss] omap_find_cache_assign_same [OF inv])
  qed
  have dyn: "snd (resolve_attributes C stock_marker symbolizer feature st) = st
            \<and> omap_find (sym_addr symbolizer)
                (cached_attributes (snd (resolve_attributes C stock_marker symbolizer feature st))) \<noteq>
                Some (get_marker_attributes C stock_marker symbolizer feature, properties symbolizer)"
    if "\<exists>key_prop \<in> set (properties symbolizer). is_expression (snd key_prop)"
  proof -
    have "\<not> attributes_cacheable symbolizer"
      using that by (simp add: attributes_cacheable_iff)
    then have same: "snd (resolve_attributes C stock_marker symbolizer feature st) = st"
      by (simp add: resolve_attributes_miss [OF miss])
    have "omap_find (sym_addr symbolizer) (cached_attributes st) \<noteq>
                Some (get_marker_attributes C stock_marker symbolizer feature, properties symbolizer)"
      using miss by (auto simp: find_cached_attributes_def)
    then show ?thesis
      by (simp add: same)
  qed
  show ?thesis
    using fresh lit dyn by blast
qed

theorem attributes_cached_iff_no_expression_witness:
  "omap_inv (cached_attributes example_state)
   \<and> find_cached_attributes \<lparr>sym_addr = 9, properties = [(keys_width, expression_ptr 3)]\<rparr>
        (cached_attributes example_state) = None
   \<and> find_cached_attributes \<lparr>sym_addr = 9, properties = [(keys_width, value_double 4)]\<rparr>
        (cached_attributes example_state) = None
   \<and> snd (resolve_attributes example_collaborators example_marker
            \<lparr>sym_addr = 9, properties = [(keys_width, expression_ptr 3)]\<rparr> 0 example_state)
       = example_state
   \<and> omap_find 9
        (cached_attributes
           (snd (resolve_attributes example_collaborators example_marker
                   \<lparr>sym_addr = 9, properties = [(keys_width, value_double 4)]\<rparr> 0 example_state)))
       = Some ([], [(keys_width, value_double 4)])"
proof -
  have inv: "omap_inv (cached_attributes example_state)"
    by (simp add: omap_inv_def omap_keys_def)
  have miss_e: "find_cached_attributes \<lparr>sym_addr = 9, properties = [(keys_width, expression_ptr 3)]\<rparr>
        (cached_attributes example_state) = None"
    by (simp add: find_cached_attributes_def)
  have miss_l: "find_cached_attributes \<lparr>sym_addr = 9, properties = [(keys_width, value_double 4)]\<rparr>
        (cached_attributes example_state) = None"
    by (simp add: find_cached_attributes_def)
  have dyn: "snd (resolve_attributes example_collaborators example_marker
            \<lparr>sym_addr = 9, properties = [(keys_width, expression_ptr 3)]\<rparr> 0 example_state)
       = example_state"
    using attributes_cached_iff_no_expression [OF inv miss_e, of example_collaborators example_marker 0]
    by simp
  have val: "get_marker_attributes example_collaborators example_marker
              \<lparr>sym_addr = 9, properties = [(keys_width, value_double 4)]\<rparr> 0 = []"
    by (simp add: get_marker_attributes_def)
  have lit: "omap_find 9
        (cached_attributes
           (snd (resolve_attributes example_collaborators example_marker
                   \<lparr>sym_addr = 9, properties = [(keys_width, value_double 4)]\<rparr> 0 example_state)))
       = Some ([], [(keys_width, value_double 4)])"
  proof -
    have all_lit: "\<forall>key_prop \<in> set (properties \<lparr>sym_addr = 9, properties = [(keys_width, value_double 4)]\<rparr>).
        \<not> is_expression (snd key_prop)"
      by simp
    have "omap_find (sym_addr \<lparr>sym_addr = 9, properties = [(keys_width, value_double 4)]\<rparr>)
        (cached_attributes
           (snd (resolve_attributes example_collaborators example_marker
                   \<lparr>sym_addr = 9, properties = [(keys_width, value_double 4)]\<rparr> 0 example_state)))
       = Some (get_marker_attributes example_collaborators example_marker
                 \<lparr>sym_addr = 9, properties = [(keys_width, value_double 4)]\<rparr> 0,
               properties \<lparr>sym_addr = 9, properties = [(keys_width, value_double 4)]\<rparr>)"
      using attributes_cached_iff_no_expression [OF inv miss_l, of example_collaborators example_marker 0]
        all_lit
      by blast
    then show ?thesis
      using val by simp
  qed
  show ?thesis
    using inv miss_e miss_l dyn lit by blast
qed

section \<open>An empty file name\<close>

text \<open>
  C10. When the \<^verbatim>\<open>file\<close> property of the symbolizer evaluates to the empty string,
  \<^verbatim>\<open>render_markers_symbolizer\<close> returns with the state unchanged: no marker is looked
  up in the registry, no cache is read or written, no pixel and no detector entry is
  touched. A symbolizer without the key gets the default \<^verbatim>\<open>"shape://ellipse"\<close>, which is
  not empty, and goes on to the registry and the visitor.
\<close>

theorem empty_file_returns_at_once:
  "(get_or_default (extract_string C) symbolizer keys_file feature ''shape://ellipse'' = [] \<longrightarrow>
      render_markers_symbolizer C R symbolizer feature common st = st)
   \<and> (\<forall>v. map_of (properties symbolizer) keys_file = Some v \<and> extract_string C feature v = [] \<longrightarrow>
        render_markers_symbolizer C R symbolizer feature common st = st)
   \<and> (map_of (properties symbolizer) keys_file = None \<longrightarrow>
        get_or_default (extract_string C) symbolizer keys_file feature ''shape://ellipse''
          = ''shape://ellipse''
        \<and> render_markers_symbolizer C R symbolizer feature common st =
            apply_visitor C R ''shape://ellipse'' symbolizer feature common
              (fst (marker_find C ''shape://ellipse'' True (registry st)))
              (st\<lparr>registry := snd (marker_find C ''shape://ellipse'' True (registry st))\<rparr>))"
  by (simp add: render_markers_symbolizer_def get_or_default_def Let_def split_beta)

theorem empty_file_returns_at_once_witness:
  "get_or_default (extract_string example_collaborators)
     \<lparr>sym_addr = 9, properties = [(keys_file, value_string [])]\<rparr> keys_file 0 ''shape://ellipse'' = []
   \<and> render_markers_symbolizer example_collaborators painting
        \<lparr>sym_addr = 9, properties = [(keys_file, value_string [])]\<rparr> 0 \<lparr>common_scale_factor = 1\<rparr>
        example_state = example_state
   \<and> registry (render_markers_symbolizer example_collaborators painting
        \<lparr>sym_addr = 9, properties = []\<rparr> 0 \<lparr>common_scale_factor = 1\<rparr> example_state) = 1"
proof -
  have empty: "get_or_default (extract_string example_collaborators)
     \<lparr>sym_addr = 9, properties = [(keys_file, value_string [])]\<rparr> keys_file 0 ''shape://ellipse'' = []"
    by (simp add: get_or_default_def)
  have absent: "map_of (properties \<lparr>sym_addr = 9, properties = []\<rparr>) keys_file = None"
    by simp
  have skip: "render_markers_symbolizer example_collaborators painting
        \<lparr>sym_addr = 9, properties = [(keys_file, value_string [])]\<rparr> 0 \<lparr>common_scale_factor = 1\<rparr>
        example_state = example_state"
    using empty_file_returns_at_once [of example_collaborators
        "\<lparr>sym_addr = 9, properties = [(keys_file, value_string [])]\<rparr>" 0 painting
        "\<lparr>common_scale_factor = 1\<rparr>" example_state] empty
    by blast
  have looked_up: "registry (render_markers_symbolizer example_collaborators painting
        \<lparr>sym_addr = 9, properties = []\<rparr> 0 \<lparr>common_scale_factor = 1\<rparr> example_state) = 1"
    using empty_file_returns_at_once [of example_collaborators
        "\<lparr>sym_addr = 9, properties = []\<rparr>" 0 painting
        "\<lparr>common_scale_factor = 1\<rparr>" example_state] absent
    by simp
  show ?thesis
    using empty skip looked_up by blast
qed

section \<open>Degenerate bounding boxes\<close>

text \<open>
  C9. For a polygon whose bounding box (minimum corner not beyond the maximum corner) has
  width zero or height zero, \<^verbatim>\<open>polylabel\<close>, and with it \<^verbatim>\<open>interior\<close>, returns the
  minimum corner of the box: the run ends in a point, not in a division by zero, for any
  fuel (it enters no loop), any precision and whatever the centroid is. The only division
  before the return is the one of the cell size by 2.
\<close>

theorem polylabel_degenerate_bbox:
  assumes "minx (envelope (exterior_ring poly)) \<le> maxx (envelope (exterior_ring poly))"
    and "miny (envelope (exterior_ring poly)) \<le> maxy (envelope (exterior_ring poly))"
    and "width (envelope (exterior_ring poly)) = 0 \<or> height (envelope (exterior_ring poly)) = 0"
  shows "polylabel envelope centroid_of fuel poly precision =
           Inr (point (minx (envelope (exterior_ring poly))) (miny (envelope (exterior_ring poly))))
       \<and> interior envelope centroid_of fuel poly scale =
           Inr (point (minx (envelope (exterior_ring poly))) (miny (envelope (exterior_ring poly))))"
proof -
  let ?b = "envelope (exterior_ring poly)"
  have w: "0 \<le> width ?b" and h: "0 \<le> height ?b"
    using assms(1,2) by (simp_all add: width_def height_def round_double_nonneg)
  have cell: "min (width ?b) (height ?b) = 0"
    using assms(3) w h by (auto simp: min_def)
  have "polylabel envelope centroid_of fuel poly p = Inr (point (minx ?b) (miny ?b))" for p
    by (simp add: polylabel_def Let_def cell checked_div_def)
  then show ?thesis
    by (simp add: interior_def)
qed

theorem polylabel_degenerate_bbox_witness:
  "minx \<lparr>minx = 2, miny = 3, maxx = 2, maxy = 8\<rparr> \<le> maxx \<lparr>minx = 2, miny = 3, maxx = 2, maxy = 8\<rparr>
   \<and> miny \<lparr>minx = 2, miny = 3, maxx = 2, maxy = 8\<rparr> \<le> maxy \<lparr>minx = 2, miny = 3, maxx = 2, maxy = 8\<rparr>
   \<and> width \<lparr>minx = 2, miny = 3, maxx = 2, maxy = 8\<rparr> = 0
   \<and> interior (\<lambda>ring. \<lparr>minx = 2, miny = 3, maxx = 2, maxy = 8\<rparr>) (\<lambda>p. None) 0
        \<lparr>exterior_ring = [point 2 3, point 2 8, point 2 3], interior_rings = []\<rparr> 1
       = Inr (point 2 3)
   \<and> fitness (make_fitness_functor (point 2 3) (point 0 0)) (point 2 4) 1 = Inl division_by_zero"
proof -
  note inst = polylabel_degenerate_bbox
      [where envelope = "\<lambda>ring. \<lparr>minx = 2, miny = 3, maxx = 2, maxy = 8\<rparr>"
         and poly = "\<lparr>exterior_ring = [point 2 3, point 2 8, point 2 3], interior_rings = []\<rparr>"
         and centroid_of = "\<lambda>p. None" and fuel = 0 and precision = 1 and scale = 1]
  have r: "interior (\<lambda>ring. \<lparr>minx = 2, miny = 3, maxx = 2, maxy = 8\<rparr>) (\<lambda>p. None) 0
        \<lparr>exterior_ring = [point 2 3, point 2 8, point 2 3], interior_rings = []\<rparr> 1
       = Inr (point 2 3)"
    using inst by (simp add: width_def)
  have d: "fitness (make_fitness_functor (point 2 3) (point 0 0)) (point 2 4) 1 = Inl division_by_zero"
    by (simp add: fitness_def make_fitness_functor_def checked_div_def Let_def)
  show ?thesis
    using r d by (simp add: width_def)
qed

section \<open>Facts about runs of insertions\<close>

lemma cache_emplace_size_le:
  assumes "omap_inv m" and "omap_size m \<le> Suc bound"
  shows "omap_size (cache_emplace bound k v m) \<le> Suc bound"
proof -
  have inv: "omap_inv (evict_if_full bound m)"
    using assms(1) by (rule omap_inv_evict)
  have "omap_size (evict_if_full bound m) \<le> bound"
  proof (cases "bound < omap_size m")
    case True
    then have "m \<noteq> []" by (auto simp: omap_size_def)
    then show ?thesis
      using True assms(2) omap_size_erase_begin [of m] by (simp add: evict_if_full_def)
  next
    case False
    then show ?thesis by (simp add: evict_if_full_def)
  qed
  then show ?thesis
    by (simp add: cache_emplace_def omap_size_emplace [OF inv])
qed

lemma cache_assign_size_le:
  assumes "omap_inv m" and "omap_size m \<le> Suc bound"
  shows "omap_size (cache_assign bound k v m) \<le> Suc bound"
proof -
  have inv: "omap_inv (evict_if_full bound m)"
    using assms(1) by (rule omap_inv_evict)
  have "omap_size (evict_if_full bound m) \<le> bound"
  proof (cases "bound < omap_size m")
    case True
    then have "m \<noteq> []" by (auto simp: omap_size_def)
    then show ?thesis
      using True assms(2) omap_size_erase_begin [of m] by (simp add: evict_if_full_def)
  next
    case False
    then show ?thesis by (simp add: evict_if_full_def)
  qed
  then show ?thesis
    by (simp add: cache_assign_def omap_size_assign [OF inv])
qed

lemma render_marker_miss_cache:
  assumes c: "cacheable marker_tr"
    and miss: "omap_find (image_cache_key src a marker_tr) (cached_images st) = None"
  shows "cached_images (render_marker R src path [a] params marker_tr st) =
           cache_emplace cache_size (image_cache_key src a marker_tr)
             (create_fill_image R src path a params marker_tr,
              create_stroke_image R src path a params marker_tr) (cached_images st)"
proof -
  have len: "length [a] = 1" by simp
  show ?thesis
    by (simp add: render_marker_cached_path [OF len c] lookup_or_render_miss [OF miss])
qed

lemma render_run_below:
  assumes c: "cacheable marker_tr" and empty: "cached_images st = []"
  shows "n \<le> Suc cache_size \<Longrightarrow>
     omap_inv (cached_images (render_run R src path a params marker_tr n st)) \<and>
     fst ` set (omap_keys (cached_images (render_run R src path a params marker_tr n st))) = {..<n} \<and>
     omap_size (cached_images (render_run R src path a params marker_tr n st)) = n"
proof (induction n)
  case 0
  then show ?case by (simp add: empty omap_inv_def omap_keys_def omap_size_def)
next
  case (Suc n)
  let ?m = "cached_images (render_run R src path a params marker_tr n st)"
  let ?k = "image_cache_key (src\<lparr>addr := n\<rparr>) a marker_tr"
  let ?v = "(create_fill_image R (src\<lparr>addr := n\<rparr>) path a params marker_tr,
             create_stroke_image R (src\<lparr>addr := n\<rparr>) path a params marker_tr)"
  have ih: "omap_inv ?m" "fst ` set (omap_keys ?m) = {..<n}" "omap_size ?m = n"
    using Suc by simp_all
  have fstk: "fst ?k = n"
    by (simp add: image_cache_key_def)
  have "n \<notin> fst ` set (omap_keys ?m)"
    by (simp add: ih(2))
  then have new: "?k \<notin> set (omap_keys ?m)"
    using fstk by (metis imageI)
  then have miss: "omap_find ?k ?m = None"
    by (simp add: omap_find_None_iff)
  have keep: "evict_if_full cache_size ?m = ?m"
    using ih(3) Suc.prems by (simp add: evict_if_full_small)
  have step: "cached_images (render_run R src path a params marker_tr (Suc n) st) =
                omap_emplace ?k ?v ?m"
    using render_marker_miss_cache [OF c miss, of R path params]
    by (simp add: cache_emplace_def [of cache_size ?k ?v ?m] keep)
  have "omap_inv (omap_emplace ?k ?v ?m)"
    using ih(1) by (rule omap_inv_emplace)
  moreover have "fst ` set (omap_keys (omap_emplace ?k ?v ?m)) = {..<Suc n}"
    by (simp add: omap_keys_emplace ih(2) lessThan_Suc fstk)
  moreover have "omap_size (omap_emplace ?k ?v ?m) = Suc n"
    using new by (simp add: omap_size_emplace [OF ih(1)] ih(3))
  ultimately show ?case
    by (simp only: step)
qed

section \<open>The bound of the caches\<close>

text \<open>
  C1. The claim: after any sequence of insertions a cache holds at most its configured
  maximum of entries (4096 rendered images, 256 attribute sets, 256 ellipses), and an
  insertion into a cache at its bound evicts one entry first. The sources test
  \<^verbatim>\<open>size() > bound\<close> before the insertion, so a cache that holds exactly its maximum is
  not evicted from: rendering 4097 distinct markers at a cacheable placement leaves 4097
  entries in the rendered-image cache, and on the eviction and insertion steps alone, 4097
  insertions of distinct keys leave 4097 entries under the bound 4096, and 257 leave 257
  under the bound 256 of the attribute cache and of the ellipse cache. One more than the
  bound is the most a cache reaches (\<open>cache_emplace_size_le\<close>, \<open>cache_assign_size_le\<close>).
\<close>

theorem cache_bound_exceeded:
  "omap_size (cached_images
      (render_run painting example_marker 7 example_attr example_params (placement 1 10.3 10.7)
         4097 example_context)) = 4097
   \<and> omap_size (insert_run (\<lambda>k. cache_emplace cache_size k (None, None)) 4097
      ([] :: (nat, image_pair) omap)) = 4097
   \<and> omap_size (insert_run (\<lambda>k. cache_assign attributes_cache_size k ([], [])) 257
      ([] :: (nat, attribute_entry) omap)) = 257
   \<and> omap_size (insert_run (\<lambda>k. cache_emplace ellipses_cache_size k ()) 257
      ([] :: (nat, unit) omap)) = 257"
proof -
  have c: "cacheable (placement 1 10.3 10.7)"
    by (simp add: cacheable_def)
  have empty: "cached_images example_context = []"
    by simp
  have n: "(4097::nat) \<le> Suc cache_size"
    by (simp add: cache_size_def)
  have run: "omap_size (cached_images
      (render_run painting example_marker 7 example_attr example_params (placement 1 10.3 10.7)
         4097 example_context)) = 4097"
    using render_run_below [OF c empty n, of painting example_marker 7 example_attr example_params]
    by blast
  show ?thesis
    using run emplace_run_below [of 4097 cache_size "(None, None) :: image_pair"]
        assign_run_below [of 257 attributes_cache_size "([], []) :: attribute_entry"]
        emplace_run_below [of 257 ellipses_cache_size "()"]
    by (simp add: cache_size_def attributes_cache_size_def ellipses_cache_size_def)
qed

end
